theory Spec2Isabelle
  imports Complex_Main "HOL-Library.Word"
begin

unbundle bit_operations_syntax

section \<open>Machine types and exceptions\<close>

type_synonym uint8_t = "8 word"
type_synonym uint32_t = "32 word"
type_synonym uint64_t = "64 word"
type_synonym png_byte = "8 word"
type_synonym png_uint_32 = "32 word"

text \<open>\<open>png_size_t\<close> is \<open>size_t\<close>; the model fixes the LP64 width.\<close>

type_synonym png_size_t = "64 word"

text \<open>
  The exceptions of \<open>BiometricEvaluation::Error\<close> that the two components raise.
  \<open>BufferOverrun\<close> is not a C++ exception: it marks a store outside an allocated
  array, which the source leaves undefined.
\<close>

datatype error =
    StrategyError string
  | ObjectExists
  | ObjectDoesNotExist
  | BufferOverrun

text \<open>
  \<open>Framework::Status\<close>: a severity, a message and the identifier of the object that
  reports. The source builds it positionally as \<open>{Type::Error, msg, png->getIdentifier()}\<close>.
  The enumeration is declared in a header outside the sources at hand; of its values
  only \<open>Error\<close> is named by the code below.
\<close>

datatype status_type = Debug | Warning | Error

datatype status = Status status_type string string

text \<open>
  \<open>statusCallback_t\<close> is a \<open>std::function\<close> taking a status. It either returns
  (\<open>None\<close>) or throws (\<open>Some e\<close>). Every invocation is recorded, in order, in a
  list of delivered statuses that the operations below pass along.
\<close>

type_synonym statusCallback_t = "status \<Rightarrow> error option"

section \<open>Image metadata\<close>

datatype Units = PPI | PPCM

text \<open>The resolution values are C++ doubles; the model keeps them as exact reals.\<close>

record Resolution =
  xRes :: real
  yRes :: real
  units :: Units

record Size =
  xSize :: uint32_t
  ySize :: uint32_t

text \<open>
  The state of the \<open>Image\<close> base object that the PNG adapter reads and sets through
  its accessors; each field carries the name of its getter. Depths are kept as naturals: the largest value the constructor can
  store is \<open>255 * 255\<close>.
\<close>

record Image =
  getDataPointer :: "uint8_t list"
  getDataSize :: uint64_t
  getIdentifier :: string
  getStatusCallback :: statusCallback_t
  getColorDepth :: nat
  getBitDepth :: nat
  getDimensions :: Size
  getResolution :: Resolution
  hasAlphaChannel :: bool

text \<open>
  The base-class constructor stores the encoded bytes, the identifier and the
  callback. Every metadata field is overwritten by the PNG constructor before it
  returns, so the initial values chosen here are never observed.
\<close>

definition Image_base ::
  "uint8_t list \<Rightarrow> uint64_t \<Rightarrow> string \<Rightarrow> statusCallback_t \<Rightarrow> Image" where
  "Image_base d n ident cb =
     \<lparr> getDataPointer = d, getDataSize = n, getIdentifier = ident, getStatusCallback = cb,
       getColorDepth = 0, getBitDepth = 0,
       getDimensions = \<lparr> xSize = 0, ySize = 0 \<rparr>,
       getResolution = \<lparr> xRes = 0, yRes = 0, units = PPI \<rparr>,
       hasAlphaChannel = False \<rparr>"

section \<open>The codec session as the adapter sees it\<close>

text \<open>The \<open>png_buffer\<close> struct: encoded bytes, their count, bytes consumed so far.\<close>

record png_buffer =
  data :: "uint8_t list"
  size' :: uint64_t
  offset :: png_size_t

text \<open>
  The state-changing codec operations the adapter invokes on a read struct, recorded
  in call order.
\<close>

datatype png_call =
    SetSwap
  | SetExpandGray124To8
  | SetPaletteToRgb
  | SetTrnsToAlpha
  | ReadUpdateInfo

text \<open>
  What the adapter can observe of a \<open>png_struct\<close>: the user pointer handed to
  \<open>png_create_read_struct\<close> (read back by \<open>png_get_error_ptr\<close>), the I/O pointer
  set by \<open>png_set_read_fn\<close> (read back by \<open>png_get_io_ptr\<close>), and the operations
  applied so far.
\<close>

record png_struct =
  error_ptr :: "Image option"
  io_ptr :: "png_buffer option"
  calls :: "png_call list"

text \<open>Header fields read through the \<open>png_get_*\<close> accessors.\<close>

record png_info =
  image_width :: png_uint_32
  image_height :: png_uint_32
  bit_depth :: png_byte
  color_type :: png_byte
  channels :: png_byte
  rowbytes :: png_size_t
  pHYs :: "(png_uint_32 \<times> png_uint_32 \<times> uint32_t) option"
  tRNS :: bool

text \<open>Constants of \<open>png.h\<close>.\<close>

definition PNG_COLOR_MASK_PALETTE :: png_byte where "PNG_COLOR_MASK_PALETTE = 1"
definition PNG_COLOR_MASK_COLOR :: png_byte where "PNG_COLOR_MASK_COLOR = 2"
definition PNG_COLOR_MASK_ALPHA :: png_byte where "PNG_COLOR_MASK_ALPHA = 4"
definition PNG_COLOR_TYPE_GRAY :: png_byte where "PNG_COLOR_TYPE_GRAY = 0"
definition PNG_COLOR_TYPE_PALETTE :: png_byte where
  "PNG_COLOR_TYPE_PALETTE = PNG_COLOR_MASK_COLOR OR PNG_COLOR_MASK_PALETTE"
definition PNG_RESOLUTION_METER :: uint32_t where "PNG_RESOLUTION_METER = 1"

section \<open>The read-from-memory shim\<close>

text \<open>
  \<open>png_read_mem_src\<close>: the result is the bytes copied into the codec's buffer and
  the session with the advanced offset, or the exception thrown. The subtraction is
  unsigned, as in the source.
\<close>

definition png_read_mem_src ::
  "png_struct \<Rightarrow> png_size_t \<Rightarrow> error + (uint8_t list \<times> png_struct)" where
  "png_read_mem_src png_ptr len =
     (case io_ptr png_ptr of
        None \<Rightarrow> Inl (StrategyError ''Lost current offset while reading from memory'')
      | Some input \<Rightarrow>
          if len > size' input - offset input
          then Inl (StrategyError ''Attempted to read more data than available'')
          else Inr (take (unat len) (drop (unat (offset input)) (data input)),
                    png_ptr \<lparr> io_ptr := Some (input \<lparr> offset := offset input + len \<rparr>) \<rparr>))"

section \<open>Error and warning callbacks\<close>

text \<open>
  \<open>png_error_callback\<close>: every path ends in a \<open>throw\<close>, so the result is the
  exception that leaves the function together with the statuses delivered.
\<close>

definition png_error_callback ::
  "png_struct \<Rightarrow> string \<Rightarrow> status list \<Rightarrow> error \<times> status list" where
  "png_error_callback png_ptr msg delivered =
     (case error_ptr png_ptr of
        Some png \<Rightarrow>
          (case getStatusCallback png (Status Error msg (getIdentifier png)) of
             Some e \<Rightarrow> (e, delivered @ [Status Error msg (getIdentifier png)])
           | None \<Rightarrow> (StrategyError msg, delivered @ [Status Error msg (getIdentifier png)]))
      | None \<Rightarrow> (StrategyError msg, delivered))"

text \<open>
  \<open>png_warning_callback\<close>: returns normally unless the status callback throws.
\<close>

definition png_warning_callback ::
  "png_struct \<Rightarrow> string \<Rightarrow> status list \<Rightarrow> (error + unit) \<times> status list" where
  "png_warning_callback png_ptr msg delivered =
     (case error_ptr png_ptr of
        None \<Rightarrow> (Inr (), delivered)
      | Some png \<Rightarrow>
          (case getStatusCallback png (Status Error msg (getIdentifier png)) of
             Some e \<Rightarrow> (Inl e, delivered @ [Status Error msg (getIdentifier png)])
           | None \<Rightarrow> (Inr (), delivered @ [Status Error msg (getIdentifier png)])))"

section \<open>Signature test\<close>

definition png_signature :: "png_byte list" where
  "png_signature = [137, 80, 78, 71, 13, 10, 26, 10]"

text \<open>\<open>memcmp\<close> on two byte lists of equal length: the sign of the first difference.\<close>

fun memcmp :: "uint8_t list \<Rightarrow> uint8_t list \<Rightarrow> int" where
  "memcmp (a # as) (b # bs) = (if a = b then memcmp as bs else if a < b then - 1 else 1)"
| "memcmp _ _ = 0"

text \<open>
  The codec's \<open>png_sig_cmp(sig, start, num_to_check)\<close>: clamps the count to the
  signature length and compares with the fixed signature.
\<close>

definition png_sig_cmp :: "png_byte list \<Rightarrow> nat \<Rightarrow> nat \<Rightarrow> int" where
  "png_sig_cmp sig start num_to_check =
     (if num_to_check < 1 then - 1
      else if start > 7 then - 1
      else let num = min num_to_check 8;
               num = (if start + num > 8 then 8 - start else num)
           in memcmp (take num (drop start sig)) (take num (drop start png_signature)))"

definition PNG_SIG_LENGTH :: nat where "PNG_SIG_LENGTH = 8"

text \<open>
  \<open>PNG::isPNG(data, size)\<close>. The \<open>memcpy\<close> of the first eight bytes is \<open>take\<close>.
\<close>

definition isPNG :: "uint8_t list \<Rightarrow> uint64_t \<Rightarrow> bool" where
  "isPNG d n =
     (if n \<le> of_nat PNG_SIG_LENGTH then False
      else let header = take PNG_SIG_LENGTH d
           in png_sig_cmp header 0 PNG_SIG_LENGTH = 0)"

section \<open>The codec\<close>

text \<open>
  The PNG codec is an external library. What it does with one encoded image is taken
  as given: whether its allocations succeed, the events it raises while it parses
  (requests to the read shim, warnings, one terminating error), the header it
  reports, the header it reports after the requested transformations are committed,
  and the rows it decodes.
\<close>

datatype png_event = PngRead png_size_t | PngWarning string | PngError string

record png_codec =
  create_read_struct_ok :: bool
  create_info_struct_ok :: bool
  read_info_events :: "png_event list"
  header :: png_info
  read_update_info_events :: "png_event list"
  updated_header :: "png_call list \<Rightarrow> png_info"
  read_image_events :: "png_event list"
  image_rows :: "uint8_t list list"

text \<open>
  The codec running inside one of its entry points: each event calls back into the
  adapter. An exception that leaves a callback ends the run.
\<close>

fun png_run ::
  "png_struct \<Rightarrow> png_event list \<Rightarrow> status list \<Rightarrow> (error + png_struct) \<times> status list" where
  "png_run p [] ds = (Inr p, ds)"
| "png_run p (PngRead n # es) ds =
     (case png_read_mem_src p n of
        Inl e \<Rightarrow> (Inl e, ds)
      | Inr (bytes, p') \<Rightarrow> png_run p' es ds)"
| "png_run p (PngWarning m # es) ds =
     (case png_warning_callback p m ds of
        (Inl e, ds') \<Rightarrow> (Inl e, ds')
      | (Inr u, ds') \<Rightarrow> png_run p es ds')"
| "png_run p (PngError m # es) ds =
     (case png_error_callback p m ds of (e, ds') \<Rightarrow> (Inl e, ds'))"

definition png_create_read_struct :: "png_codec \<Rightarrow> Image \<Rightarrow> png_struct option" where
  "png_create_read_struct codec this =
     (if create_read_struct_ok codec
      then Some \<lparr> error_ptr = Some this, io_ptr = None, calls = [] \<rparr>
      else None)"

definition png_set_read_fn :: "png_struct \<Rightarrow> png_buffer \<Rightarrow> png_struct" where
  "png_set_read_fn png_ptr png_buf = png_ptr \<lparr> io_ptr := Some png_buf \<rparr>"

definition png_read_info ::
  "png_codec \<Rightarrow> png_struct \<Rightarrow> status list
     \<Rightarrow> (error + png_struct \<times> png_info) \<times> status list" where
  "png_read_info codec png_ptr ds =
     (case png_run png_ptr (read_info_events codec) ds of
        (Inl e, ds1) \<Rightarrow> (Inl e, ds1)
      | (Inr p, ds1) \<Rightarrow> (Inr (p, header codec), ds1))"

definition png_set_swap :: "png_struct \<Rightarrow> png_struct" where
  "png_set_swap png_ptr = png_ptr \<lparr> calls := calls png_ptr @ [SetSwap] \<rparr>"

definition png_set_expand_gray_1_2_4_to_8 :: "png_struct \<Rightarrow> png_struct" where
  "png_set_expand_gray_1_2_4_to_8 png_ptr =
     png_ptr \<lparr> calls := calls png_ptr @ [SetExpandGray124To8] \<rparr>"

definition png_set_palette_to_rgb :: "png_struct \<Rightarrow> png_struct" where
  "png_set_palette_to_rgb png_ptr = png_ptr \<lparr> calls := calls png_ptr @ [SetPaletteToRgb] \<rparr>"

definition png_set_tRNS_to_alpha :: "png_struct \<Rightarrow> png_struct" where
  "png_set_tRNS_to_alpha png_ptr = png_ptr \<lparr> calls := calls png_ptr @ [SetTrnsToAlpha] \<rparr>"

definition png_read_update_info ::
  "png_codec \<Rightarrow> png_struct \<Rightarrow> status list
     \<Rightarrow> (error + png_struct \<times> png_info) \<times> status list" where
  "png_read_update_info codec png_ptr ds =
     (case png_run (png_ptr \<lparr> calls := calls png_ptr @ [ReadUpdateInfo] \<rparr>)
             (read_update_info_events codec) ds of
        (Inl e, ds1) \<Rightarrow> (Inl e, ds1)
      | (Inr p, ds1) \<Rightarrow> (Inr (p, updated_header codec (calls png_ptr)), ds1))"

text \<open>
  Storing decoded rows through the row pointers, each an offset into the output
  array. A row that does not fit in the array is a store outside it.
\<close>

fun store_rows :: "uint8_t list \<Rightarrow> nat list \<Rightarrow> uint8_t list list \<Rightarrow> error + uint8_t list" where
  "store_rows raw (ptr # ptrs) (r # rs) =
     (if ptr + length r \<le> length raw
      then store_rows (take ptr raw @ r @ drop (ptr + length r) raw) ptrs rs
      else Inl BufferOverrun)"
| "store_rows raw _ _ = Inr raw"

definition png_read_image ::
  "png_codec \<Rightarrow> png_struct \<Rightarrow> nat list \<Rightarrow> uint8_t list \<Rightarrow> status list
     \<Rightarrow> (error + png_struct \<times> uint8_t list) \<times> status list" where
  "png_read_image codec png_ptr row_pointers rawData ds =
     (case png_run png_ptr (read_image_events codec) ds of
        (Inl e, ds1) \<Rightarrow> (Inl e, ds1)
      | (Inr p, ds1) \<Rightarrow>
          (case store_rows rawData row_pointers (image_rows codec) of
             Inl e \<Rightarrow> (Inl e, ds1)
           | Inr raw \<Rightarrow> (Inr (p, raw), ds1)))"

section \<open>The PNG adapter\<close>

definition setColorDepth :: "nat \<Rightarrow> Image \<Rightarrow> Image" where
  "setColorDepth v this = this \<lparr> getColorDepth := v \<rparr>"

definition setBitDepth :: "nat \<Rightarrow> Image \<Rightarrow> Image" where
  "setBitDepth v this = this \<lparr> getBitDepth := v \<rparr>"

definition setDimensions :: "Size \<Rightarrow> Image \<Rightarrow> Image" where
  "setDimensions v this = this \<lparr> getDimensions := v \<rparr>"

definition setResolution :: "Resolution \<Rightarrow> Image \<Rightarrow> Image" where
  "setResolution v this = this \<lparr> getResolution := v \<rparr>"

definition setHasAlphaChannel :: "bool \<Rightarrow> Image \<Rightarrow> Image" where
  "setHasAlphaChannel v this = this \<lparr> hasAlphaChannel := v \<rparr>"

text \<open>
  The constructor \<open>PNG::PNG(data, size, identifier, statusCallback)\<close>. The result is
  the constructed object or the exception, with the statuses delivered.
\<close>

definition PNG ::
  "png_codec \<Rightarrow> uint8_t list \<Rightarrow> uint64_t \<Rightarrow> string \<Rightarrow> statusCallback_t \<Rightarrow> status list
     \<Rightarrow> (error + Image) \<times> status list" where
  "PNG codec d n ident cb ds =
     (let this = Image_base d n ident cb in
      case png_create_read_struct codec this of
        None \<Rightarrow> (Inl (StrategyError ''Could not initialize reading''), ds)
      | Some png_ptr \<Rightarrow>
          let png_buf = \<lparr> data = getDataPointer this, size' = getDataSize this, offset = 0 \<rparr>;
              png_ptr = png_set_read_fn png_ptr png_buf
          in if \<not> create_info_struct_ok codec
             then (Inl (StrategyError ''Could not initialize container for information''), ds)
             else
               (case png_read_info codec png_ptr ds of
                  (Inl e, ds1) \<Rightarrow> (Inl e, ds1)
                | (Inr (png_ptr, png_info_ptr), ds1) \<Rightarrow>
                    let pngBitDepth = bit_depth png_info_ptr;
                        this = setColorDepth (unat pngBitDepth * unat (channels png_info_ptr)) this;
                        colorType = color_type png_info_ptr;
                        this = (if getColorDepth this \<le> 8 \<and>
                                   colorType AND PNG_COLOR_MASK_PALETTE = PNG_COLOR_MASK_PALETTE
                                then setColorDepth 24 this else this);
                        this = setBitDepth (unat pngBitDepth) this;
                        this = setDimensions \<lparr> xSize = image_width png_info_ptr,
                                                ySize = image_height png_info_ptr \<rparr> this;
                        this = (case pHYs png_info_ptr of
                                  Some (xres, yres, unit_type) \<Rightarrow>
                                    if unit_type = PNG_RESOLUTION_METER
                                    then setResolution
                                           \<lparr> xRes = real (unat xres) / 100,
                                             yRes = real (unat yres) / 100,
                                             units = PPCM \<rparr> this
                                    else setResolution \<lparr> xRes = 0, yRes = 0, units = PPCM \<rparr> this
                                | None \<Rightarrow>
                                    setResolution \<lparr> xRes = 72, yRes = 72, units = PPI \<rparr> this);
                        color_type' = color_type png_info_ptr;
                        this = setHasAlphaChannel
                                 (color_type' AND PNG_COLOR_MASK_ALPHA = PNG_COLOR_MASK_ALPHA) this
                    in (Inr this, ds1)))"

text \<open>
  Lines 207 to 238 of \<open>PNG::getRawData\<close>: the transformations requested from the
  codec and the conditional refresh of the header fields. \<open>isLittleEndian\<close> is the
  byte order of the host. The result carries the session, the header and the local
  variables \<open>pngBitDepth\<close> and \<open>color_type\<close> as they stand after line 238.
\<close>

definition getRawData_transformations ::
  "bool \<Rightarrow> png_codec \<Rightarrow> png_struct \<Rightarrow> png_info \<Rightarrow> status list
     \<Rightarrow> (error + png_struct \<times> png_info \<times> png_byte \<times> png_byte) \<times> status list" where
  "getRawData_transformations isLittleEndian codec png_ptr png_info_ptr ds =
     (let pngBitDepth = bit_depth png_info_ptr;
          png_ptr = (if pngBitDepth > 8 \<and> isLittleEndian then png_set_swap png_ptr else png_ptr);
          didTransformations = False;
          color_type' = color_type png_info_ptr;
          (png_ptr, didTransformations) =
            (if color_type' = PNG_COLOR_TYPE_GRAY \<and> pngBitDepth < 8
             then (png_set_expand_gray_1_2_4_to_8 png_ptr, True)
             else (png_ptr, didTransformations));
          (png_ptr, didTransformations) =
            (if color_type' = PNG_COLOR_TYPE_PALETTE
             then (png_set_palette_to_rgb png_ptr, True)
             else (png_ptr, didTransformations));
          (png_ptr, didTransformations) =
            (if tRNS png_info_ptr
             then (png_set_tRNS_to_alpha png_ptr, True)
             else (png_ptr, didTransformations))
      in if didTransformations
         then (case png_read_update_info codec png_ptr ds of
                 (Inl e, ds1) \<Rightarrow> (Inl e, ds1)
               | (Inr (png_ptr, png_info_ptr), ds1) \<Rightarrow>
                   (Inr (png_ptr, png_info_ptr,
                         bit_depth png_info_ptr, color_type png_info_ptr), ds1))
         else (Inr (png_ptr, png_info_ptr, pngBitDepth, color_type'), ds))"

text \<open>
  \<open>PNG::getRawData\<close>. \<open>rowbytes\<close> is the codec's \<open>size_t\<close> narrowed to
  \<open>png_uint_32\<close>; the array size \<open>rowbytes * height\<close> and each row offset
  \<open>row * rowbytes\<close> are products of 32-bit unsigned operands. The output array
  starts zero-filled.
\<close>

definition getRawData ::
  "bool \<Rightarrow> png_codec \<Rightarrow> Image \<Rightarrow> status list \<Rightarrow> (error + uint8_t list) \<times> status list" where
  "getRawData isLittleEndian codec this ds =
     (case png_create_read_struct codec this of
        None \<Rightarrow> (Inl (StrategyError ''Could not initialize reading''), ds)
      | Some png_ptr \<Rightarrow>
          let png_buf = \<lparr> data = getDataPointer this, size' = getDataSize this, offset = 0 \<rparr>;
              png_ptr = png_set_read_fn png_ptr png_buf
          in if \<not> create_info_struct_ok codec
             then (Inl (StrategyError ''Could not initialize container for information''), ds)
             else
               (case png_read_info codec png_ptr ds of
                  (Inl e, ds1) \<Rightarrow> (Inl e, ds1)
                | (Inr (png_ptr, png_info_ptr), ds1) \<Rightarrow>
                    (case getRawData_transformations isLittleEndian codec png_ptr png_info_ptr ds1 of
                       (Inl e, ds2) \<Rightarrow> (Inl e, ds2)
                     | (Inr (png_ptr, png_info_ptr, pngBitDepth, color_type'), ds2) \<Rightarrow>
                         let rowbytes' = (ucast (rowbytes png_info_ptr) :: png_uint_32);
                             height = ySize (getDimensions this);
                             rawData = replicate (unat (rowbytes' * height)) (0 :: uint8_t);
                             row_pointers =
                               map (\<lambda>row. unat ((of_nat row :: uint32_t) * rowbytes'))
                                 [0 ..< unat height]
                         in (case png_read_image codec png_ptr row_pointers rawData ds2 of
                               (Inl e, ds3) \<Rightarrow> (Inl e, ds3)
                             | (Inr (png_ptr, rawData), ds3) \<Rightarrow> (Inr rawData, ds3)))))"

section \<open>Log sheets and cabinets\<close>

text \<open>
  The header \<open>be_io_logcabinet.h\<close> declares \<open>LogSheet\<close> and \<open>LogCabinet\<close> with
  their data members; the member functions are defined in a translation unit that is
  not among the sources. The data below follows the header; the operations follow
  the specification.

  A log file is its description line followed by the entries, each with its number.
  The file system maps a path to what is stored there.
\<close>

datatype log_line = Description string | Entry uint32_t string

datatype fs_node =
    Directory
  | LogFile "log_line list"
  | ControlFile string string nat

type_synonym filesystem = "string \<rightharpoonup> fs_node"

text \<open>
  The members of \<open>LogSheet\<close>: \<open>_entryNumber\<close> (a \<open>uint32_t\<close>), the open file
  \<open>_theLogFile\<close> (by its path), \<open>_autoSync\<close>, and the text staged in the inherited
  string stream.
\<close>

record LogSheet =
  entryNumber :: uint32_t
  theLogFile :: string
  autoSync :: bool
  currentEntry :: string

record LogCabinet =
  cabinetName :: string
  cabinetParentDir :: string
  cabinetDirectory :: string
  cabinetDescription :: string
  cabinetCount :: nat

definition canonicalName :: "string \<Rightarrow> string \<Rightarrow> string" where
  "canonicalName dir name = dir @ ''/'' @ name"

text \<open>
  Modelled from the spec: the constructor \<open>LogSheet::LogSheet(name, description,
  parentDir)\<close>, whose body is not among the sources. "Construction opens (creates)
  the backing file; fails with already-exists if the name is taken in the target
  directory, or a strategy failure for any other filesystem error or malformed
  name"; the entry counter "starts at 0"; the description "is written into the log
  file prior to any entries". \<open>io_ok\<close> says that the name is well formed and that
  the file system reports no other error.
\<close>

definition new_LogSheet ::
  "string \<Rightarrow> string \<Rightarrow> string \<Rightarrow> bool \<Rightarrow> filesystem \<Rightarrow> (error + LogSheet) \<times> filesystem" where
  "new_LogSheet name description parentDir io_ok fs =
     (let path = canonicalName parentDir name in
      if fs path \<noteq> None then (Inl ObjectExists, fs)
      else if \<not> io_ok then (Inl (StrategyError ''Could not create the log sheet''), fs)
      else (Inr \<lparr> entryNumber = 0, theLogFile = path, autoSync = False, currentEntry = [] \<rparr>,
            fs(path \<mapsto> LogFile [Description description])))"

text \<open>
  Modelled from the spec: \<open>LogSheet::write(entry)\<close>, whose body is not among the
  sources. "Appends text as a new numbered entry directly to the file (entry number
  prefix, then text) and increments the entry counter, independent of the pending
  in-memory buffer"; a file system error is a strategy failure. The increment is
  that of the \<open>uint32_t\<close> member. Forcing data to storage under auto-sync has no
  effect on the contents modelled here.
\<close>

definition write' ::
  "LogSheet \<Rightarrow> string \<Rightarrow> bool \<Rightarrow> filesystem \<Rightarrow> (error + LogSheet) \<times> filesystem" where
  "write' sheet entry io_ok fs =
     (case fs (theLogFile sheet) of
        Some (LogFile ls) \<Rightarrow>
          if io_ok
          then (Inr (sheet \<lparr> entryNumber := entryNumber sheet + 1 \<rparr>),
                fs(theLogFile sheet \<mapsto> LogFile (ls @ [Entry (entryNumber sheet) entry])))
          else (Inl (StrategyError ''Failed writing to the log file''), fs)
      | _ \<Rightarrow> (Inl (StrategyError ''Failed writing to the log file''), fs))"

text \<open>Successive calls of \<open>write\<close>, one per text, none meeting a file system error.\<close>

fun write_all ::
  "LogSheet \<Rightarrow> string list \<Rightarrow> filesystem \<Rightarrow> (error + LogSheet) \<times> filesystem" where
  "write_all sheet [] fs = (Inr sheet, fs)"
| "write_all sheet (e # es) fs =
     (case write' sheet e True fs of
        (Inl err, fs1) \<Rightarrow> (Inl err, fs1)
      | (Inr sheet1, fs1) \<Rightarrow> write_all sheet1 es fs1)"

text \<open>
  Modelled from the spec: the opening constructor \<open>LogCabinet::LogCabinet(name,
  parentDir)\<close>, whose body is not among the sources. "Construct-to-open: fails if no
  such cabinet exists; loads name, description and count from the control file";
  "any malformed control file surfaces as a strategy failure at open time".
\<close>

definition open_LogCabinet ::
  "string \<Rightarrow> string \<Rightarrow> filesystem \<Rightarrow> (error + LogCabinet) \<times> filesystem" where
  "open_LogCabinet name parentDir fs =
     (let dir = canonicalName parentDir name in
      case fs dir of
        Some Directory \<Rightarrow>
          (case fs (canonicalName dir ''.control'') of
             Some (ControlFile n d c) \<Rightarrow>
               (Inr \<lparr> cabinetName = n, cabinetParentDir = parentDir, cabinetDirectory = dir,
                      cabinetDescription = d, cabinetCount = c \<rparr>, fs)
           | _ \<Rightarrow> (Inl (StrategyError ''Could not read the control file''), fs))
      | _ \<Rightarrow> (Inl ObjectDoesNotExist, fs))"

section \<open>Vocabulary of the statements\<close>

text \<open>
  The calls that lines 209 to 231 of \<open>getRawData\<close> make for a given header, in the
  order of the source.
\<close>

definition requested_calls :: "bool \<Rightarrow> png_info \<Rightarrow> png_call list" where
  "requested_calls isLittleEndian info =
     (if bit_depth info > 8 \<and> isLittleEndian then [SetSwap] else [])
     @ (if color_type info = PNG_COLOR_TYPE_GRAY \<and> bit_depth info < 8
        then [SetExpandGray124To8] else [])
     @ (if color_type info = PNG_COLOR_TYPE_PALETTE then [SetPaletteToRgb] else [])
     @ (if tRNS info then [SetTrnsToAlpha] else [])"

text \<open>The warnings in a run of the codec, and a codec with its warnings left out.\<close>

fun is_warning :: "png_event \<Rightarrow> bool" where
  "is_warning (PngWarning m) = True"
| "is_warning _ = False"

fun warnings_of :: "png_event list \<Rightarrow> string list" where
  "warnings_of [] = []"
| "warnings_of (PngWarning m # es) = m # warnings_of es"
| "warnings_of (e # es) = warnings_of es"

definition without_warnings :: "png_codec \<Rightarrow> png_codec" where
  "without_warnings codec =
     codec \<lparr> read_info_events := filter (\<lambda>e. \<not> is_warning e) (read_info_events codec),
             read_update_info_events :=
               filter (\<lambda>e. \<not> is_warning e) (read_update_info_events codec),
             read_image_events := filter (\<lambda>e. \<not> is_warning e) (read_image_events codec) \<rparr>"

section \<open>Example inputs\<close>

text \<open>
  Three status callbacks: one that always returns, one that throws on every status
  of severity \<open>Error\<close>, and one that throws on every status of severity
  \<open>Warning\<close> and on no other.
\<close>

definition quiet :: statusCallback_t where
  "quiet = (\<lambda>s. None)"

definition strict :: statusCallback_t where
  "strict s = (case s of Status t m i \<Rightarrow> if t = Error then Some (StrategyError m) else None)"

definition rejects_warnings :: statusCallback_t where
  "rejects_warnings s =
     (case s of Status t m i \<Rightarrow> if t = Warning then Some (StrategyError m) else None)"

text \<open>
  A two by two 8-bit grayscale image with a resolution of 3937 pixels per meter; the
  codec reads the signature, warns once, and later reads four more bytes.
\<close>

definition sample_data :: "uint8_t list" where
  "sample_data = png_signature @ [0, 0, 0, 13]"

definition sample_info :: png_info where
  "sample_info =
     \<lparr> image_width = 2, image_height = 2, bit_depth = 8, color_type = 0, channels = 1,
       rowbytes = 2, pHYs = Some (3937, 3937, 1), tRNS = False \<rparr>"

definition sample_codec :: png_codec where
  "sample_codec =
     \<lparr> create_read_struct_ok = True, create_info_struct_ok = True,
       read_info_events = [PngRead 8, PngWarning ''gamma''],
       header = sample_info,
       read_update_info_events = [],
       updated_header = (\<lambda>cs. sample_info),
       read_image_events = [PngRead 4],
       image_rows = [[1, 2], [3, 4]] \<rparr>"

definition sample_adapter :: Image where
  "sample_adapter =
     Image_base sample_data 12 ''img'' quiet
       \<lparr> getColorDepth := 8, getBitDepth := 8,
         getDimensions := \<lparr> xSize = 2, ySize = 2 \<rparr>,
         getResolution := \<lparr> xRes = 39.37, yRes = 39.37, units = PPCM \<rparr>,
         hasAlphaChannel := False \<rparr>"

text \<open>The same image with its resolution given in the unknown unit.\<close>

definition unknown_unit_codec :: png_codec where
  "unknown_unit_codec =
     sample_codec \<lparr> header := sample_info \<lparr> pHYs := Some (3937, 3937, 0) \<rparr> \<rparr>"

definition unknown_unit_adapter :: Image where
  "unknown_unit_adapter =
     sample_adapter \<lparr> getResolution := \<lparr> xRes = 0, yRes = 0, units = PPCM \<rparr> \<rparr>"

text \<open>A 4-bit palette image with a transparency table, expanded by the codec to RGBA.\<close>

definition palette_info :: png_info where
  "palette_info =
     \<lparr> image_width = 2, image_height = 2, bit_depth = 4, color_type = 3, channels = 1,
       rowbytes = 1, pHYs = None, tRNS = True \<rparr>"

definition rgba_info :: png_info where
  "rgba_info =
     \<lparr> image_width = 2, image_height = 2, bit_depth = 8, color_type = 6, channels = 4,
       rowbytes = 8, pHYs = None, tRNS = True \<rparr>"

definition palette_codec :: png_codec where
  "palette_codec =
     \<lparr> create_read_struct_ok = True, create_info_struct_ok = True,
       read_info_events = [PngRead 8],
       header = palette_info,
       read_update_info_events = [],
       updated_header = (\<lambda>cs. rgba_info),
       read_image_events = [PngRead 4],
       image_rows = [[1, 2, 3, 4, 5, 6, 7, 8], [9, 10, 11, 12, 13, 14, 15, 16]] \<rparr>"

definition palette_adapter :: Image where
  "palette_adapter =
     Image_base sample_data 12 ''img'' quiet
       \<lparr> getColorDepth := 24, getBitDepth := 4,
         getDimensions := \<lparr> xSize = 2, ySize = 2 \<rparr>,
         getResolution := \<lparr> xRes = 72, yRes = 72, units = PPI \<rparr>,
         hasAlphaChannel := False \<rparr>"

text \<open>A 16-bit grayscale image.\<close>

definition gray16_info :: png_info where
  "gray16_info =
     \<lparr> image_width = 2, image_height = 2, bit_depth = 16, color_type = 0, channels = 1,
       rowbytes = 4, pHYs = None, tRNS = False \<rparr>"

definition gray16_codec :: png_codec where
  "gray16_codec =
     \<lparr> create_read_struct_ok = True, create_info_struct_ok = True,
       read_info_events = [PngRead 8],
       header = gray16_info,
       read_update_info_events = [],
       updated_header = (\<lambda>cs. gray16_info),
       read_image_events = [PngRead 4],
       image_rows = [[0, 1, 0, 2], [0, 3, 0, 4]] \<rparr>"

definition gray16_adapter :: Image where
  "gray16_adapter =
     Image_base sample_data 12 ''img'' quiet
       \<lparr> getColorDepth := 16, getBitDepth := 16,
         getDimensions := \<lparr> xSize = 2, ySize = 2 \<rparr>,
         getResolution := \<lparr> xRes = 72, yRes = 72, units = PPI \<rparr>,
         hasAlphaChannel := False \<rparr>"

text \<open>
  An 8-bit grayscale image of 65536 by 65536 pixels, a size within the codec's
  default limit of one million pixels per side. Each decoded row has 65536 bytes.
\<close>

definition wide_info :: png_info where
  "wide_info =
     \<lparr> image_width = 65536, image_height = 65536, bit_depth = 8, color_type = 0,
       channels = 1, rowbytes = 65536, pHYs = None, tRNS = False \<rparr>"

definition wide_codec :: png_codec where
  "wide_codec =
     \<lparr> create_read_struct_ok = True, create_info_struct_ok = True,
       read_info_events = [PngRead 8],
       header = wide_info,
       read_update_info_events = [],
       updated_header = (\<lambda>cs. wide_info),
       read_image_events = [PngRead 4],
       image_rows = replicate 65536 (replicate 65536 0) \<rparr>"

definition wide_image :: Image where
  "wide_image =
     Image_base sample_data 12 ''wide'' quiet
       \<lparr> getColorDepth := 8, getBitDepth := 8,
         getDimensions := \<lparr> xSize = 65536, ySize = 65536 \<rparr>,
         getResolution := \<lparr> xRes = 72, yRes = 72, units = PPI \<rparr>,
         hasAlphaChannel := False \<rparr>"

text \<open>
  Codecs that meet an error in the header, in the update of the header, and in the
  pixel data.
\<close>

definition failing_codec :: png_codec where
  "failing_codec =
     sample_codec \<lparr> read_info_events := [PngRead 8, PngWarning ''gamma'', PngError ''bad header''] \<rparr>"

definition decode_failing_codec :: png_codec where
  "decode_failing_codec =
     sample_codec \<lparr> read_image_events := [PngRead 4, PngError ''IDAT: CRC error''] \<rparr>"

definition update_failing_codec :: png_codec where
  "update_failing_codec =
     palette_codec \<lparr> read_update_info_events := [PngError ''Insufficient memory''] \<rparr>"

text \<open>
  The read struct of an adapter after \<open>png_set_read_fn\<close>, at a given offset and
  with given calls applied.
\<close>

definition session :: "Image \<Rightarrow> png_size_t \<Rightarrow> png_call list \<Rightarrow> png_struct" where
  "session this off cs =
     \<lparr> error_ptr = Some this,
       io_ptr = Some \<lparr> data = getDataPointer this, size' = getDataSize this, offset = off \<rparr>,
       calls = cs \<rparr>"

text \<open>A log sheet right after its creation in an empty file system.\<close>

definition fresh_sheet :: LogSheet where
  "fresh_sheet =
     \<lparr> entryNumber = 0, theLogFile = ''logs/run'', autoSync = False, currentEntry = [] \<rparr>"

definition fresh_fs :: filesystem where
  "fresh_fs = [''logs/run'' \<mapsto> LogFile [Description ''nightly'']]"

section \<open>The signature test\<close>

lemma memcmp_same_length: "length a = length b \<Longrightarrow> (memcmp a b = 0) = (a = b)"
  by (induction a b rule: memcmp.induct) auto

lemma png_sig_cmp_8: "length h = 8 \<Longrightarrow> (png_sig_cmp h 0 8 = 0) = (h = png_signature)"
  by (simp add: png_sig_cmp_def Let_def memcmp_same_length png_signature_def)

lemma isPNG_iff:
  "8 \<le> length d \<Longrightarrow> isPNG d n = (8 < unat n \<and> take 8 d = png_signature)"
  apply (simp add: isPNG_def PNG_SIG_LENGTH_def Let_def png_sig_cmp_8)
  apply (simp add: word_le_nat_alt word_less_nat_alt not_le)
  done

text \<open>
  C4. For a buffer \<open>d\<close> passed with its own length \<open>n\<close>: \<open>isPNG\<close> is false when
  the buffer has at most eight bytes, in particular for an eight-byte buffer that is
  not the signature; it is true when the buffer is the signature followed by at
  least one byte; and for any longer buffer it says exactly whether the first eight
  bytes are the signature. Being a total boolean function of its arguments, it has
  no effect and raises nothing.
\<close>

theorem isPNG_signature:
  assumes "unat n = length d"
  shows "(length d \<le> 8 \<longrightarrow> \<not> isPNG d n)
       \<and> (length d = 8 \<and> d \<noteq> png_signature \<longrightarrow> \<not> isPNG d n)
       \<and> (\<forall>b rest. d = png_signature @ b # rest \<longrightarrow> isPNG d n)
       \<and> (8 < length d \<longrightarrow> isPNG d n = (take 8 d = png_signature))"
proof -
  have small: "length d \<le> 8 \<Longrightarrow> \<not> isPNG d n"
    using assms by (simp add: isPNG_def PNG_SIG_LENGTH_def word_le_nat_alt)
  have big: "8 < length d \<Longrightarrow> isPNG d n = (take 8 d = png_signature)"
    using assms by (simp add: isPNG_iff)
  have sig: "isPNG d n" if "d = png_signature @ b # rest" for b rest
  proof -
    have "8 < length d" using that by (simp add: png_signature_def)
    moreover have "take 8 d = png_signature" using that by (simp add: png_signature_def)
    ultimately show ?thesis using big by simp
  qed
  show ?thesis using small big sig by auto
qed

theorem isPNG_signature_witness:
  "unat (9 :: uint64_t) = length (png_signature @ [0 :: uint8_t])
   \<and> isPNG (png_signature @ [0]) 9
   \<and> \<not> isPNG png_signature 8"
proof -
  have h: "unat (9 :: uint64_t) = length (png_signature @ [0 :: uint8_t])"
    by (simp add: png_signature_def)
  have h8: "unat (8 :: uint64_t) = length png_signature"
    by (simp add: png_signature_def)
  show ?thesis
    using h isPNG_signature [OF h] isPNG_signature [OF h8]
    by (simp add: png_signature_def)
qed

section \<open>The read shim\<close>

lemma read_within:
  fixes off len sz :: png_size_t
  assumes "off \<le> sz" and "\<not> len > sz - off"
  shows "unat (off + len) = unat off + unat len" and "off + len \<le> sz"
proof -
  have a: "unat (sz - off) = unat sz - unat off"
    using assms(1) by (simp add: unat_sub)
  have b: "unat len \<le> unat sz - unat off"
    using assms(2) a by (simp add: word_le_nat_alt not_less)
  have c: "unat off \<le> unat sz"
    using assms(1) by (simp add: word_le_nat_alt)
  have d: "unat off + unat len \<le> unat sz"
    using b c by arith
  have e: "unat sz < 2 ^ 64"
    using unsigned_less [of sz, where 'a = nat] by simp
  show f: "unat (off + len) = unat off + unat len"
    using d e by (simp add: unat_add_lem [THEN iffD1])
  show "off + len \<le> sz"
    using d f by (simp add: word_le_nat_alt)
qed

lemma png_read_mem_src_within:
  assumes "png_read_mem_src p n = Inr (bytes, p')" and "io_ptr p = Some b"
      and "offset b \<le> size' b"
  shows "\<exists>b'. io_ptr p' = Some b' \<and> offset b' \<le> size' b' \<and> size' b' = size' b
              \<and> data b' = data b"
proof -
  have fit: "\<not> n > size' b - offset b"
    using assms(1,2) by (auto simp: png_read_mem_src_def split: if_splits)
  have "p' = p \<lparr> io_ptr := Some (b \<lparr> offset := offset b + n \<rparr>) \<rparr>"
    using assms(1,2) by (auto simp: png_read_mem_src_def split: if_splits)
  then show ?thesis
    using read_within(2) [OF assms(3) fit] by simp
qed

lemma png_run_offset_within:
  assumes "png_run p es ds = (Inr p', ds1)" and "io_ptr p = Some b" and "offset b \<le> size' b"
  shows "\<exists>b'. io_ptr p' = Some b' \<and> offset b' \<le> size' b' \<and> size' b' = size' b
              \<and> data b' = data b"
  using assms
proof (induction p es ds arbitrary: b rule: png_run.induct)
  case (1 p ds)
  then show ?case by simp
next
  case (2 p n es ds)
  from "2.prems"(1) obtain bytes q where
    r: "png_read_mem_src p n = Inr (bytes, q)" and run: "png_run q es ds = (Inr p', ds1)"
    by (auto split: sum.splits)
  from png_read_mem_src_within [OF r "2.prems"(2,3)] obtain c where
    c: "io_ptr q = Some c" "offset c \<le> size' c" "size' c = size' b" "data c = data b"
    by blast
  from "2.IH" [OF r refl run c(1,2)] show ?case
    using c(3,4) by auto
next
  case (3 p m es ds)
  from "3.prems"(1) obtain u d where
    w: "png_warning_callback p m ds = (Inr u, d)" and run: "png_run p es d = (Inr p', ds1)"
    by (auto split: sum.splits prod.splits)
  from "3.IH" [OF w [symmetric] refl run "3.prems"(2,3)] show ?case .
next
  case (4 p m es ds)
  then show ?case by (simp split: prod.splits)
qed

text \<open>
  C7. The read shim throws \<open>StrategyError\<close> when the I/O pointer is null and when
  the requested length exceeds the buffer size minus the current offset; otherwise
  it hands out the bytes at the current offset and adds the length to the offset.
  When the offset was within the buffer and the buffer holds as many bytes as its
  size says, exactly the requested number of bytes is copied, the addition does not
  wrap, and the new offset is again within the buffer. Hence, however many reads and
  warnings the codec goes through, an offset that starts within the buffer (both
  operations start it at 0) is within the buffer at the end.
\<close>

theorem png_read_mem_src_contract:
  "(io_ptr p = None \<longrightarrow>
      png_read_mem_src p len =
        Inl (StrategyError ''Lost current offset while reading from memory''))
   \<and> (\<forall>input. io_ptr p = Some input \<and> len > size' input - offset input \<longrightarrow>
         png_read_mem_src p len =
           Inl (StrategyError ''Attempted to read more data than available''))
   \<and> (\<forall>input. io_ptr p = Some input \<and> \<not> len > size' input - offset input \<longrightarrow>
         png_read_mem_src p len =
           Inr (take (unat len) (drop (unat (offset input)) (data input)),
                p \<lparr> io_ptr := Some (input \<lparr> offset := offset input + len \<rparr>) \<rparr>))
   \<and> (\<forall>input. io_ptr p = Some input \<and> \<not> len > size' input - offset input
           \<and> offset input \<le> size' input \<and> unat (size' input) = length (data input) \<longrightarrow>
         length (take (unat len) (drop (unat (offset input)) (data input))) = unat len
         \<and> unat (offset input + len) = unat (offset input) + unat len
         \<and> offset input + len \<le> size' input)
   \<and> (\<forall>es ds p' ds1 b.
         png_run p es ds = (Inr p', ds1) \<and> io_ptr p = Some b \<and> offset b \<le> size' b \<longrightarrow>
         (\<exists>b'. io_ptr p' = Some b' \<and> offset b' \<le> size' b' \<and> size' b' = size' b
               \<and> data b' = data b))"
proof (intro conjI allI impI)
  show "png_read_mem_src p len =
        Inl (StrategyError ''Lost current offset while reading from memory'')"
    if "io_ptr p = None"
    using that by (simp add: png_read_mem_src_def)
next
  fix input
  assume "io_ptr p = Some input \<and> len > size' input - offset input"
  then show "png_read_mem_src p len =
           Inl (StrategyError ''Attempted to read more data than available'')"
    by (simp add: png_read_mem_src_def)
next
  fix input
  assume "io_ptr p = Some input \<and> \<not> len > size' input - offset input"
  then show "png_read_mem_src p len =
           Inr (take (unat len) (drop (unat (offset input)) (data input)),
                p \<lparr> io_ptr := Some (input \<lparr> offset := offset input + len \<rparr>) \<rparr>)"
    by (simp add: png_read_mem_src_def)
next
  fix input
  assume h: "io_ptr p = Some input \<and> \<not> len > size' input - offset input
           \<and> offset input \<le> size' input \<and> unat (size' input) = length (data input)"
  then have inv: "offset input \<le> size' input" and fit: "\<not> len > size' input - offset input"
    and sz: "unat (size' input) = length (data input)"
    by simp_all
  note w = read_within [OF inv fit]
  show "unat (offset input + len) = unat (offset input) + unat len" by (rule w(1))
  show "offset input + len \<le> size' input" by (rule w(2))
  have "unat (offset input) + unat len \<le> length (data input)"
    using w sz by (simp add: word_le_nat_alt)
  then show "length (take (unat len) (drop (unat (offset input)) (data input))) = unat len"
    by simp
next
  fix es ds p' ds1 b
  assume "png_run p es ds = (Inr p', ds1) \<and> io_ptr p = Some b \<and> offset b \<le> size' b"
  then show "\<exists>b'. io_ptr p' = Some b' \<and> offset b' \<le> size' b' \<and> size' b' = size' b
               \<and> data b' = data b"
    using png_run_offset_within by blast
qed

theorem png_read_mem_src_contract_witness:
  "png_read_mem_src \<lparr> error_ptr = None, io_ptr = None, calls = [] \<rparr> 2 =
     Inl (StrategyError ''Lost current offset while reading from memory'')
   \<and> png_read_mem_src \<lparr> error_ptr = None, io_ptr = Some \<lparr> data = [1, 2, 3], size' = 3, offset = 1 \<rparr>, calls = [] \<rparr> 3 =
     Inl (StrategyError ''Attempted to read more data than available'')
   \<and> png_read_mem_src \<lparr> error_ptr = None, io_ptr = Some \<lparr> data = [1, 2, 3], size' = 3, offset = 1 \<rparr>, calls = [] \<rparr> 2 =
     Inr ([2, 3], \<lparr> error_ptr = None, io_ptr = Some \<lparr> data = [1, 2, 3], size' = 3, offset = 3 \<rparr>, calls = [] \<rparr>)"
  using png_read_mem_src_contract [of "\<lparr> error_ptr = None, io_ptr = None, calls = [] \<rparr>" 2]
    png_read_mem_src_contract [of "\<lparr> error_ptr = None, io_ptr = Some \<lparr> data = [1, 2, 3], size' = 3, offset = 1 \<rparr>, calls = [] \<rparr>" 3]
    png_read_mem_src_contract [of "\<lparr> error_ptr = None, io_ptr = Some \<lparr> data = [1, 2, 3], size' = 3, offset = 1 \<rparr>, calls = [] \<rparr>" 2]
  by simp

section \<open>Severity of forwarded warnings\<close>

text \<open>
  C10. With the adapter behind the error pointer, the warning callback invokes the
  status callback on the status with severity \<open>Error\<close>, the message and the
  adapter's identifier: its outcome is what the status callback does on exactly that
  status, and that status is the one delivered. The error callback invokes the
  status callback on the same status. The severity therefore does not tell a
  warning from an error, and a callback that reacts to severity \<open>Warning\<close> never
  sees one. With no adapter behind the error pointer the warning is dropped without
  any delivery, while the error callback still throws \<open>StrategyError\<close> with the
  message.
\<close>

theorem warning_reported_as_Error:
  "snd (png_warning_callback p msg ds) = snd (png_error_callback p msg ds)
   \<and> (\<forall>png. error_ptr p = Some png \<longrightarrow>
         png_warning_callback p msg ds =
           (case getStatusCallback png (Status Error msg (getIdentifier png)) of
              None \<Rightarrow> Inr () | Some e \<Rightarrow> Inl e,
            ds @ [Status Error msg (getIdentifier png)])
         \<and> png_error_callback p msg ds =
           (case getStatusCallback png (Status Error msg (getIdentifier png)) of
              None \<Rightarrow> StrategyError msg | Some e \<Rightarrow> e,
            ds @ [Status Error msg (getIdentifier png)])
         \<and> snd (png_warning_callback p msg ds) \<noteq> ds @ [Status Warning msg (getIdentifier png)])
   \<and> (error_ptr p = None \<longrightarrow>
         png_warning_callback p msg ds = (Inr (), ds)
         \<and> png_error_callback p msg ds = (StrategyError msg, ds))"
  by (auto simp: png_warning_callback_def png_error_callback_def split: option.splits)

theorem warning_reported_as_Error_witness:
  "png_warning_callback
     \<lparr> error_ptr = Some (Image_base [] 0 ''img'' strict), io_ptr = None, calls = [] \<rparr> ''w'' []
     = (Inl (StrategyError ''w''), [Status Error ''w'' ''img''])
   \<and> png_warning_callback
     \<lparr> error_ptr = Some (Image_base [] 0 ''img'' rejects_warnings), io_ptr = None, calls = [] \<rparr>
     ''w'' []
     = (Inr (), [Status Error ''w'' ''img''])
   \<and> png_error_callback
     \<lparr> error_ptr = Some (Image_base [] 0 ''img'' rejects_warnings), io_ptr = None, calls = [] \<rparr>
     ''w'' []
     = (StrategyError ''w'', [Status Error ''w'' ''img''])
   \<and> png_warning_callback \<lparr> error_ptr = None, io_ptr = None, calls = [] \<rparr> ''w'' [] = (Inr (), [])
   \<and> png_error_callback \<lparr> error_ptr = None, io_ptr = None, calls = [] \<rparr> ''w'' [] =
       (StrategyError ''w'', [])"
proof -
  let ?s = "Image_base [] 0 ''img'' strict"
  let ?r = "Image_base [] 0 ''img'' rejects_warnings"
  let ?ps = "\<lparr> error_ptr = Some ?s, io_ptr = None, calls = [] \<rparr>"
  let ?pr = "\<lparr> error_ptr = Some ?r, io_ptr = None, calls = [] \<rparr>"
  let ?q = "\<lparr> error_ptr = None, io_ptr = None, calls = [] \<rparr> :: png_struct"
  have es: "error_ptr ?ps = Some ?s" and er: "error_ptr ?pr = Some ?r"
    and eq: "error_ptr ?q = None"
    by simp_all
  have cs: "getIdentifier ?s = ''img''" "getStatusCallback ?s = strict"
    and cr: "getIdentifier ?r = ''img''" "getStatusCallback ?r = rejects_warnings"
    by (simp_all add: Image_base_def)
  have vs: "strict (Status Error ''w'' ''img'') = Some (StrategyError ''w'')"
    by (simp add: strict_def)
  have vr: "rejects_warnings (Status Error ''w'' ''img'') = None"
    by (simp add: rejects_warnings_def)
  note t = warning_reported_as_Error
  have a: "png_warning_callback ?ps ''w'' [] =
             (case getStatusCallback ?s (Status Error ''w'' (getIdentifier ?s)) of
                None \<Rightarrow> Inr () | Some e \<Rightarrow> Inl e,
              [] @ [Status Error ''w'' (getIdentifier ?s)])"
    by (rule t [of ?ps "''w''" "[]", THEN conjunct2, THEN conjunct1, THEN spec, THEN mp,
                OF es, THEN conjunct1])
  have b: "png_warning_callback ?pr ''w'' [] =
             (case getStatusCallback ?r (Status Error ''w'' (getIdentifier ?r)) of
                None \<Rightarrow> Inr () | Some e \<Rightarrow> Inl e,
              [] @ [Status Error ''w'' (getIdentifier ?r)])"
    by (rule t [of ?pr "''w''" "[]", THEN conjunct2, THEN conjunct1, THEN spec, THEN mp,
                OF er, THEN conjunct1])
  have c: "png_error_callback ?pr ''w'' [] =
             (case getStatusCallback ?r (Status Error ''w'' (getIdentifier ?r)) of
                None \<Rightarrow> StrategyError ''w'' | Some e \<Rightarrow> e,
              [] @ [Status Error ''w'' (getIdentifier ?r)])"
    by (rule t [of ?pr "''w''" "[]", THEN conjunct2, THEN conjunct1, THEN spec, THEN mp,
                OF er, THEN conjunct2, THEN conjunct1])
  have d: "png_warning_callback ?q ''w'' [] = (Inr (), [])
        \<and> png_error_callback ?q ''w'' [] = (StrategyError ''w'', [])"
    by (rule t [of ?q "''w''" "[]", THEN conjunct2, THEN conjunct2, THEN mp, OF eq])
  show ?thesis
    using a b c d by (simp add: cs cr vs vr)
qed

section \<open>The constructor\<close>

lemma png_read_mem_src_frame:
  "png_read_mem_src p n = Inr (bytes, p') \<Longrightarrow> calls p' = calls p \<and> error_ptr p' = error_ptr p"
  by (auto simp: png_read_mem_src_def split: option.splits if_splits)

lemma png_run_frame:
  "png_run p es ds = (Inr p', ds1) \<Longrightarrow> calls p' = calls p \<and> error_ptr p' = error_ptr p"
proof (induction p es ds rule: png_run.induct)
  case (1 p ds)
  then show ?case by simp
next
  case (2 p n es ds)
  then show ?case
    by (auto split: sum.splits dest: png_read_mem_src_frame)
next
  case (3 p m es ds)
  then show ?case
    by (auto split: sum.splits prod.splits)
next
  case (4 p m es ds)
  then show ?case by (simp split: prod.splits)
qed

lemma png_read_info_frame:
  "png_read_info codec p ds = (Inr (p', info), ds1) \<Longrightarrow>
     calls p' = calls p \<and> error_ptr p' = error_ptr p \<and> info = header codec"
  by (auto simp: png_read_info_def split: prod.splits sum.splits dest: png_run_frame)

lemma PNG_Inr:
  assumes "PNG codec d n ident cb ds = (Inr img, ds1)"
  shows "img = (let h = header codec;
                    depth = unat (bit_depth h) * unat (channels h)
                in Image_base d n ident cb
                   \<lparr> getColorDepth :=
                       (if depth \<le> 8 \<and> color_type h AND PNG_COLOR_MASK_PALETTE = PNG_COLOR_MASK_PALETTE
                        then 24 else depth),
                     getBitDepth := unat (bit_depth h),
                     getDimensions := \<lparr> xSize = image_width h, ySize = image_height h \<rparr>,
                     getResolution :=
                       (case pHYs h of
                          Some (xres, yres, unit_type) \<Rightarrow>
                            if unit_type = PNG_RESOLUTION_METER
                            then \<lparr> xRes = real (unat xres) / 100, yRes = real (unat yres) / 100,
                                   units = PPCM \<rparr>
                            else \<lparr> xRes = 0, yRes = 0, units = PPCM \<rparr>
                        | None \<Rightarrow> \<lparr> xRes = 72, yRes = 72, units = PPI \<rparr>),
                     hasAlphaChannel :=
                       (color_type h AND PNG_COLOR_MASK_ALPHA = PNG_COLOR_MASK_ALPHA) \<rparr>)"
  using assms
  by (auto simp: PNG_def Let_def png_read_info_def png_create_read_struct_def
        setColorDepth_def setBitDepth_def setDimensions_def setResolution_def
        setHasAlphaChannel_def
      split: option.splits if_splits prod.splits sum.splits)

lemma PNG_sample: "PNG sample_codec sample_data 12 ''img'' quiet [] =
    (Inr sample_adapter, [Status Error ''gamma'' ''img''])"
  by (simp add: PNG_def Let_def png_read_info_def png_create_read_struct_def
        png_set_read_fn_def png_read_mem_src_def png_warning_callback_def quiet_def
        setColorDepth_def setBitDepth_def setDimensions_def setResolution_def
        setHasAlphaChannel_def sample_codec_def sample_info_def Image_base_def
        sample_adapter_def
        PNG_COLOR_MASK_PALETTE_def PNG_COLOR_MASK_ALPHA_def PNG_RESOLUTION_METER_def)

lemma PNG_palette: "PNG palette_codec sample_data 12 ''img'' quiet [] = (Inr palette_adapter, [])"
  by (simp add: PNG_def Let_def png_read_info_def png_create_read_struct_def
        png_set_read_fn_def png_read_mem_src_def quiet_def
        setColorDepth_def setBitDepth_def setDimensions_def setResolution_def
        setHasAlphaChannel_def palette_codec_def palette_info_def Image_base_def
        palette_adapter_def
        PNG_COLOR_MASK_PALETTE_def PNG_COLOR_MASK_ALPHA_def PNG_RESOLUTION_METER_def)

lemma PNG_unknown_unit:
  "PNG unknown_unit_codec sample_data 12 ''img'' quiet [] =
    (Inr unknown_unit_adapter, [Status Error ''gamma'' ''img''])"
  by (simp add: PNG_def Let_def png_read_info_def png_create_read_struct_def
        png_set_read_fn_def png_read_mem_src_def png_warning_callback_def quiet_def
        setColorDepth_def setBitDepth_def setDimensions_def setResolution_def
        setHasAlphaChannel_def unknown_unit_codec_def sample_codec_def sample_info_def
        Image_base_def unknown_unit_adapter_def sample_adapter_def
        PNG_COLOR_MASK_PALETTE_def PNG_COLOR_MASK_ALPHA_def PNG_RESOLUTION_METER_def)

lemma PNG_gray16:
  "PNG gray16_codec sample_data 12 ''img'' quiet [] = (Inr gray16_adapter, [])"
  by (simp add: PNG_def Let_def png_read_info_def png_create_read_struct_def
        png_set_read_fn_def png_read_mem_src_def quiet_def
        setColorDepth_def setBitDepth_def setDimensions_def setResolution_def
        setHasAlphaChannel_def gray16_codec_def gray16_info_def Image_base_def
        gray16_adapter_def
        PNG_COLOR_MASK_PALETTE_def PNG_COLOR_MASK_ALPHA_def PNG_RESOLUTION_METER_def)

lemma PNG_returns:
  assumes "create_read_struct_ok codec" and "create_info_struct_ok codec"
      and "png_read_info codec
             \<lparr> error_ptr = Some (Image_base d n ident cb),
               io_ptr = Some \<lparr> data = d, size' = n, offset = 0 \<rparr>, calls = [] \<rparr> ds
             = (Inr (p, info), ds1)"
  shows "\<exists>img. PNG codec d n ident cb ds = (Inr img, ds1)"
  using assms
  by (simp add: PNG_def Let_def png_create_read_struct_def png_set_read_fn_def Image_base_def)

lemma PNG_Inr_resolution:
  assumes "PNG codec d n ident cb ds = (Inr img, ds1)"
  shows "getResolution img =
           (case pHYs (header codec) of
              Some (xres, yres, unit_type) \<Rightarrow>
                if unit_type = PNG_RESOLUTION_METER
                then \<lparr> xRes = real (unat xres) / 100, yRes = real (unat yres) / 100,
                       units = PPCM \<rparr>
                else \<lparr> xRes = 0, yRes = 0, units = PPCM \<rparr>
            | None \<Rightarrow> \<lparr> xRes = 72, yRes = 72, units = PPI \<rparr>)"
  unfolding PNG_Inr [OF assms] by (simp add: Let_def)

lemma PNG_Inr_colorDepth:
  assumes "PNG codec d n ident cb ds = (Inr img, ds1)"
  shows "getColorDepth img =
           (if unat (bit_depth (header codec)) * unat (channels (header codec)) \<le> 8
               \<and> color_type (header codec) AND PNG_COLOR_MASK_PALETTE = PNG_COLOR_MASK_PALETTE
            then 24
            else unat (bit_depth (header codec)) * unat (channels (header codec)))"
  unfolding PNG_Inr [OF assms] by (simp add: Let_def)

lemma constructor_read_info:
  "png_read_info sample_codec
     \<lparr> error_ptr = Some (Image_base sample_data 12 ''img'' quiet),
       io_ptr = Some \<lparr> data = sample_data, size' = 12, offset = 0 \<rparr>, calls = [] \<rparr> []
   = (Inr (\<lparr> error_ptr = Some (Image_base sample_data 12 ''img'' quiet),
             io_ptr = Some \<lparr> data = sample_data, size' = 12, offset = 8 \<rparr>, calls = [] \<rparr>,
           sample_info), [Status Error ''gamma'' ''img''])"
  "png_read_info unknown_unit_codec
     \<lparr> error_ptr = Some (Image_base sample_data 12 ''img'' quiet),
       io_ptr = Some \<lparr> data = sample_data, size' = 12, offset = 0 \<rparr>, calls = [] \<rparr> []
   = (Inr (\<lparr> error_ptr = Some (Image_base sample_data 12 ''img'' quiet),
             io_ptr = Some \<lparr> data = sample_data, size' = 12, offset = 8 \<rparr>, calls = [] \<rparr>,
           sample_info \<lparr> pHYs := Some (3937, 3937, 0) \<rparr>), [Status Error ''gamma'' ''img''])"
  "png_read_info palette_codec
     \<lparr> error_ptr = Some (Image_base sample_data 12 ''img'' quiet),
       io_ptr = Some \<lparr> data = sample_data, size' = 12, offset = 0 \<rparr>, calls = [] \<rparr> []
   = (Inr (\<lparr> error_ptr = Some (Image_base sample_data 12 ''img'' quiet),
             io_ptr = Some \<lparr> data = sample_data, size' = 12, offset = 8 \<rparr>, calls = [] \<rparr>,
           palette_info), [])"
  "png_read_info gray16_codec
     \<lparr> error_ptr = Some (Image_base sample_data 12 ''img'' quiet),
       io_ptr = Some \<lparr> data = sample_data, size' = 12, offset = 0 \<rparr>, calls = [] \<rparr> []
   = (Inr (\<lparr> error_ptr = Some (Image_base sample_data 12 ''img'' quiet),
             io_ptr = Some \<lparr> data = sample_data, size' = 12, offset = 8 \<rparr>, calls = [] \<rparr>,
           gray16_info), [])"
  by (simp_all add: png_read_info_def png_read_mem_src_def png_warning_callback_def
        Image_base_def quiet_def sample_codec_def unknown_unit_codec_def palette_codec_def
        gray16_codec_def)

lemma examples_allocate:
  "create_read_struct_ok sample_codec" "create_info_struct_ok sample_codec"
  "create_read_struct_ok unknown_unit_codec" "create_info_struct_ok unknown_unit_codec"
  "create_read_struct_ok palette_codec" "create_info_struct_ok palette_codec"
  "create_read_struct_ok gray16_codec" "create_info_struct_ok gray16_codec"
  by (simp_all add: sample_codec_def unknown_unit_codec_def palette_codec_def gray16_codec_def)

text \<open>
  C2. Whenever the codec's structs are allocated and the header is read, the
  constructor returns an object, and the resolution of that object is: for a pHYs
  block in meters, the stored values divided by 100, in pixels per centimeter; for
  a pHYs block with any other unit, 0 by 0 pixels per centimeter; with no pHYs
  block, 72 by 72 pixels per inch. In particular 3937 units per meter on each axis
  give 39.37 pixels per centimeter. The quotient is the exact one; the source's
  \<open>double\<close> holds its nearest representable value.
\<close>

theorem PNG_resolution:
  assumes "create_read_struct_ok codec" and "create_info_struct_ok codec"
      and "png_read_info codec
             \<lparr> error_ptr = Some (Image_base d n ident cb),
               io_ptr = Some \<lparr> data = d, size' = n, offset = 0 \<rparr>, calls = [] \<rparr> ds
             = (Inr (p, info), ds1)"
  shows "\<exists>img. PNG codec d n ident cb ds = (Inr img, ds1)
       \<and> (\<forall>xres yres unit_type.
            pHYs info = Some (xres, yres, unit_type) \<and> unit_type = PNG_RESOLUTION_METER \<longrightarrow>
            getResolution img =
              \<lparr> xRes = real (unat xres) / 100, yRes = real (unat yres) / 100, units = PPCM \<rparr>)
       \<and> (\<forall>xres yres unit_type.
            pHYs info = Some (xres, yres, unit_type) \<and> unit_type \<noteq> PNG_RESOLUTION_METER \<longrightarrow>
            getResolution img = \<lparr> xRes = 0, yRes = 0, units = PPCM \<rparr>)
       \<and> (pHYs info = None \<longrightarrow>
            getResolution img = \<lparr> xRes = 72, yRes = 72, units = PPI \<rparr>)
       \<and> (pHYs info = Some (3937, 3937, PNG_RESOLUTION_METER) \<longrightarrow>
            getResolution img = \<lparr> xRes = 39.37, yRes = 39.37, units = PPCM \<rparr>)"
proof -
  from PNG_returns [OF assms] obtain img where
    r: "PNG codec d n ident cb ds = (Inr img, ds1)" by blast
  have h: "info = header codec"
    using png_read_info_frame [OF assms(3)] by simp
  show ?thesis
    using r PNG_Inr_resolution [OF r] by (intro exI [of _ img]) (simp add: h)
qed

theorem PNG_resolution_witness:
  "PNG sample_codec sample_data 12 ''img'' quiet [] =
     (Inr sample_adapter, [Status Error ''gamma'' ''img''])
   \<and> pHYs sample_info = Some (3937, 3937, PNG_RESOLUTION_METER)
   \<and> getResolution sample_adapter = \<lparr> xRes = 39.37, yRes = 39.37, units = PPCM \<rparr>
   \<and> PNG unknown_unit_codec sample_data 12 ''img'' quiet [] =
     (Inr unknown_unit_adapter, [Status Error ''gamma'' ''img''])
   \<and> pHYs (sample_info \<lparr> pHYs := Some (3937, 3937, 0) \<rparr>) = Some (3937, 3937, 0)
   \<and> (0 :: uint32_t) \<noteq> PNG_RESOLUTION_METER
   \<and> getResolution unknown_unit_adapter = \<lparr> xRes = 0, yRes = 0, units = PPCM \<rparr>
   \<and> PNG palette_codec sample_data 12 ''img'' quiet [] = (Inr palette_adapter, [])
   \<and> pHYs palette_info = None
   \<and> getResolution palette_adapter = \<lparr> xRes = 72, yRes = 72, units = PPI \<rparr>"
proof -
  have a: "pHYs sample_info = Some (3937, 3937, PNG_RESOLUTION_METER)"
    by (simp add: sample_info_def PNG_RESOLUTION_METER_def)
  have b: "pHYs (sample_info \<lparr> pHYs := Some (3937, 3937, 0) \<rparr>) = Some (3937, 3937, 0)"
      "(0 :: uint32_t) \<noteq> PNG_RESOLUTION_METER"
    by (simp_all add: PNG_RESOLUTION_METER_def)
  have c: "pHYs palette_info = None"
    by (simp add: palette_info_def)
  from PNG_resolution [OF examples_allocate(1,2) constructor_read_info(1)] a
  have "getResolution sample_adapter = \<lparr> xRes = 39.37, yRes = 39.37, units = PPCM \<rparr>"
    by (auto simp: PNG_sample)
  moreover from PNG_resolution [OF examples_allocate(3,4) constructor_read_info(2)] b
  have "getResolution unknown_unit_adapter = \<lparr> xRes = 0, yRes = 0, units = PPCM \<rparr>"
    by (auto simp: PNG_unknown_unit)
  moreover from PNG_resolution [OF examples_allocate(5,6) constructor_read_info(3)] c
  have "getResolution palette_adapter = \<lparr> xRes = 72, yRes = 72, units = PPI \<rparr>"
    by (auto simp: PNG_palette)
  ultimately show ?thesis
    using PNG_sample PNG_unknown_unit PNG_palette a b c by simp
qed

text \<open>
  C3. Whenever the codec's structs are allocated and the header is read, the
  constructor returns an object, and the color depth of that object is the header's
  bit depth times its channel count, except that it is 24 when that product is at
  most 8 and the color type has the palette bit set.
\<close>

theorem PNG_colorDepth:
  assumes "create_read_struct_ok codec" and "create_info_struct_ok codec"
      and "png_read_info codec
             \<lparr> error_ptr = Some (Image_base d n ident cb),
               io_ptr = Some \<lparr> data = d, size' = n, offset = 0 \<rparr>, calls = [] \<rparr> ds
             = (Inr (p, info), ds1)"
  shows "\<exists>img. PNG codec d n ident cb ds = (Inr img, ds1)
       \<and> getColorDepth img =
           (if unat (bit_depth info) * unat (channels info) \<le> 8
               \<and> color_type info AND PNG_COLOR_MASK_PALETTE = PNG_COLOR_MASK_PALETTE
            then 24
            else unat (bit_depth info) * unat (channels info))"
proof -
  from PNG_returns [OF assms] obtain img where
    r: "PNG codec d n ident cb ds = (Inr img, ds1)" by blast
  have h: "info = header codec"
    using png_read_info_frame [OF assms(3)] by simp
  show ?thesis
    using r PNG_Inr_colorDepth [OF r] by (intro exI [of _ img]) (simp add: h)
qed

theorem PNG_colorDepth_witness:
  "PNG palette_codec sample_data 12 ''img'' quiet [] = (Inr palette_adapter, [])
   \<and> unat (bit_depth palette_info) * unat (channels palette_info) = 4
   \<and> getColorDepth palette_adapter = 24
   \<and> PNG sample_codec sample_data 12 ''img'' quiet [] =
       (Inr sample_adapter, [Status Error ''gamma'' ''img''])
   \<and> unat (bit_depth sample_info) * unat (channels sample_info) = 8
   \<and> getColorDepth sample_adapter = 8
   \<and> PNG gray16_codec sample_data 12 ''img'' quiet [] = (Inr gray16_adapter, [])
   \<and> unat (bit_depth gray16_info) * unat (channels gray16_info) = 16
   \<and> getColorDepth gray16_adapter = 16"
proof -
  have a: "unat (bit_depth palette_info) * unat (channels palette_info) = 4"
      "color_type palette_info AND PNG_COLOR_MASK_PALETTE = PNG_COLOR_MASK_PALETTE"
    by (simp_all add: palette_info_def PNG_COLOR_MASK_PALETTE_def)
  have b: "unat (bit_depth sample_info) * unat (channels sample_info) = 8"
      "color_type sample_info AND PNG_COLOR_MASK_PALETTE \<noteq> PNG_COLOR_MASK_PALETTE"
    by (simp_all add: sample_info_def PNG_COLOR_MASK_PALETTE_def)
  have c: "unat (bit_depth gray16_info) * unat (channels gray16_info) = 16"
    by (simp add: gray16_info_def)
  from PNG_colorDepth [OF examples_allocate(5,6) constructor_read_info(3)] a
  have "getColorDepth palette_adapter = 24"
    by (auto simp: PNG_palette)
  moreover from PNG_colorDepth [OF examples_allocate(1,2) constructor_read_info(1)] b
  have "getColorDepth sample_adapter = 8"
    by (auto simp: PNG_sample)
  moreover from PNG_colorDepth [OF examples_allocate(7,8) constructor_read_info(4)] c
  have "getColorDepth gray16_adapter = 16"
    by (auto simp: PNG_gray16)
  ultimately show ?thesis
    using PNG_sample PNG_palette PNG_gray16 a(1) b(1) c by simp
qed

section \<open>Transformations requested by getRawData\<close>

lemma png_read_update_info_frame:
  "png_read_update_info codec p ds = (Inr (p', info), ds1) \<Longrightarrow>
     calls p' = calls p @ [ReadUpdateInfo] \<and> error_ptr p' = error_ptr p
     \<and> info = updated_header codec (calls p)"
  by (auto simp: png_read_update_info_def split: prod.splits sum.splits dest: png_run_frame)

lemma transformations_calls:
  assumes "getRawData_transformations le codec p info ds = (Inr (p', info', bd, ct), ds1)"
  shows "calls p' =
           calls p @ requested_calls le info
           @ (if (color_type info = PNG_COLOR_TYPE_GRAY \<and> bit_depth info < 8)
                 \<or> color_type info = PNG_COLOR_TYPE_PALETTE \<or> tRNS info
              then [ReadUpdateInfo] else [])"
    and "(info', bd, ct) =
           (if (color_type info = PNG_COLOR_TYPE_GRAY \<and> bit_depth info < 8)
                 \<or> color_type info = PNG_COLOR_TYPE_PALETTE \<or> tRNS info
            then (updated_header codec (calls p @ requested_calls le info),
                  bit_depth (updated_header codec (calls p @ requested_calls le info)),
                  color_type (updated_header codec (calls p @ requested_calls le info)))
            else (info, bit_depth info, color_type info))"
  using assms
  by (auto simp: getRawData_transformations_def Let_def requested_calls_def
        png_set_swap_def png_set_expand_gray_1_2_4_to_8_def png_set_palette_to_rgb_def
        png_set_tRNS_to_alpha_def
      split: if_splits prod.splits sum.splits dest!: png_read_update_info_frame)

lemma transformations_frame:
  "getRawData_transformations le c p info ds = (Inr (p', info', bd, ct), ds1) \<Longrightarrow>
     error_ptr p' = error_ptr p"
  by (auto simp: getRawData_transformations_def Let_def
        png_set_swap_def png_set_expand_gray_1_2_4_to_8_def png_set_palette_to_rgb_def
        png_set_tRNS_to_alpha_def
      split: if_splits prod.splits sum.splits dest!: png_read_update_info_frame)

text \<open>
  C1, as amended. In the session that \<open>getRawData\<close> opens, once the header has
  been read, the calls made on the codec are, in this order: the byte swap when the
  bit depth exceeds 8 on a little-endian host, the expansion of grayscale below 8
  bits, the expansion of a palette, the expansion of a tRNS table, and then the
  update of the header. The update is called exactly when one of the three
  expansions was requested (the byte swap alone does not cause it), never more than
  once, and the header fields in use afterwards are the refreshed ones exactly then.
\<close>

theorem getRawData_transformations_order:
  assumes "png_read_info codec \<lparr> error_ptr = Some this, io_ptr = Some buf, calls = [] \<rparr> ds
             = (Inr (p, info), ds1)"
      and "getRawData_transformations le codec p info ds1 = (Inr (p', info', bd, ct), ds2)"
  shows "calls p' =
           (if bit_depth info > 8 \<and> le then [SetSwap] else [])
           @ (if color_type info = PNG_COLOR_TYPE_GRAY \<and> bit_depth info < 8
              then [SetExpandGray124To8] else [])
           @ (if color_type info = PNG_COLOR_TYPE_PALETTE then [SetPaletteToRgb] else [])
           @ (if tRNS info then [SetTrnsToAlpha] else [])
           @ (if (color_type info = PNG_COLOR_TYPE_GRAY \<and> bit_depth info < 8)
                 \<or> color_type info = PNG_COLOR_TYPE_PALETTE \<or> tRNS info
              then [ReadUpdateInfo] else [])
       \<and> (ReadUpdateInfo \<in> set (calls p')) =
           (SetExpandGray124To8 \<in> set (calls p') \<or> SetPaletteToRgb \<in> set (calls p')
            \<or> SetTrnsToAlpha \<in> set (calls p'))
       \<and> count_list (calls p') ReadUpdateInfo \<le> 1
       \<and> info = header codec
       \<and> info' = (if ReadUpdateInfo \<in> set (calls p')
                   then updated_header codec (butlast (calls p')) else info)
       \<and> bd = bit_depth info' \<and> ct = color_type info'"
proof -
  have fresh: "calls p = []" and h: "info = header codec"
    using png_read_info_frame [OF assms(1)] by simp_all
  note c = transformations_calls [OF assms(2), unfolded fresh]
  show ?thesis
    using c h by (auto simp: requested_calls_def split: if_splits)
qed

lemma palette_read_info:
  "png_read_info palette_codec (session palette_adapter 0 []) [] =
     (Inr (session palette_adapter 8 [], palette_info), [])"
  by (simp add: png_read_info_def palette_codec_def session_def png_read_mem_src_def
        palette_adapter_def Image_base_def)

lemma palette_transformations:
  "getRawData_transformations True palette_codec (session palette_adapter 8 []) palette_info [] =
     (Inr (session palette_adapter 8 [SetPaletteToRgb, SetTrnsToAlpha, ReadUpdateInfo],
           rgba_info, 8, 6), [])"
  by (simp add: getRawData_transformations_def Let_def palette_codec_def palette_info_def
        rgba_info_def session_def png_read_update_info_def
        png_set_palette_to_rgb_def png_set_tRNS_to_alpha_def
        PNG_COLOR_TYPE_GRAY_def PNG_COLOR_TYPE_PALETTE_def PNG_COLOR_MASK_COLOR_def
        PNG_COLOR_MASK_PALETTE_def)

theorem getRawData_transformations_order_witness:
  "png_read_info palette_codec (session palette_adapter 0 []) [] =
     (Inr (session palette_adapter 8 [], palette_info), [])
   \<and> getRawData_transformations True palette_codec (session palette_adapter 8 []) palette_info [] =
     (Inr (session palette_adapter 8 [SetPaletteToRgb, SetTrnsToAlpha, ReadUpdateInfo],
           rgba_info, 8, 6), [])
   \<and> calls (session palette_adapter 8 [SetPaletteToRgb, SetTrnsToAlpha, ReadUpdateInfo])
       = [SetPaletteToRgb, SetTrnsToAlpha, ReadUpdateInfo]
   \<and> count_list (calls (session palette_adapter 8 [SetPaletteToRgb, SetTrnsToAlpha, ReadUpdateInfo]))
        ReadUpdateInfo \<le> 1"
  using getRawData_transformations_order
          [OF palette_read_info [unfolded session_def]
              palette_transformations [unfolded session_def]]
        palette_read_info palette_transformations
  by (simp add: session_def)

theorem swap_alone_counterexample:
  "getRawData_transformations True gray16_codec (session gray16_adapter 8 []) gray16_info [] =
     (Inr (session gray16_adapter 8 [SetSwap], gray16_info, 16, 0), [])
   \<and> \<not> ((ReadUpdateInfo \<in> set (calls (session gray16_adapter 8 [SetSwap]))) =
          (SetSwap \<in> set (calls (session gray16_adapter 8 [SetSwap]))
           \<or> SetExpandGray124To8 \<in> set (calls (session gray16_adapter 8 [SetSwap]))
           \<or> SetPaletteToRgb \<in> set (calls (session gray16_adapter 8 [SetSwap]))
           \<or> SetTrnsToAlpha \<in> set (calls (session gray16_adapter 8 [SetSwap]))))"
  by (simp add: getRawData_transformations_def Let_def gray16_codec_def gray16_info_def
        session_def png_set_swap_def
        PNG_COLOR_TYPE_GRAY_def PNG_COLOR_TYPE_PALETTE_def PNG_COLOR_MASK_COLOR_def
        PNG_COLOR_MASK_PALETTE_def)

section \<open>The output array\<close>

lemma store_rows_length:
  "store_rows raw ptrs rs = Inr raw' \<Longrightarrow> length raw' = length raw"
  by (induction raw ptrs rs rule: store_rows.induct) (auto split: if_splits)

lemma getRawData_length:
  assumes "getRawData le codec this ds = (Inr raw, ds1)"
  shows "length raw =
           unat ((ucast (rowbytes
                    (if (color_type (header codec) = PNG_COLOR_TYPE_GRAY
                           \<and> bit_depth (header codec) < 8)
                         \<or> color_type (header codec) = PNG_COLOR_TYPE_PALETTE
                         \<or> tRNS (header codec)
                     then updated_header codec (requested_calls le (header codec))
                     else header codec)) :: png_uint_32)
                 * ySize (getDimensions this))"
proof -
  from assms obtain p0 p1 info1 d1 p2 info2 bd ct d2 where
    ri: "png_read_info codec p0 ds = (Inr (p1, info1), d1)" and
    p0: "calls p0 = []" and
    tr: "getRawData_transformations le codec p1 info1 d1 = (Inr (p2, info2, bd, ct), d2)" and
    len: "length raw = unat ((ucast (rowbytes info2) :: png_uint_32) * ySize (getDimensions this))"
    by (auto simp: getRawData_def Let_def png_read_image_def png_create_read_struct_def
          png_set_read_fn_def
        split: option.splits if_splits prod.splits sum.splits dest!: store_rows_length)
  have h: "info1 = header codec" and c: "calls p1 = []"
    using png_read_info_frame [OF ri] p0 by simp_all
  show ?thesis
    using transformations_calls(2) [OF tr] len by (auto simp: h c split: if_splits)
qed

lemma getRawData_sample:
  "getRawData True sample_codec sample_adapter [] =
     (Inr [1, 2, 3, 4], [Status Error ''gamma'' ''img''])"
proof -
  have r4: "replicate 4 (0 :: uint8_t) = [0, 0, 0, 0]"
    by (simp add: eval_nat_numeral)
  have u2: "[0 ..< (2 :: nat)] = [0, 1]"
    by (simp add: eval_nat_numeral)
  show ?thesis
    by (simp add: getRawData_def png_create_read_struct_def png_set_read_fn_def Let_def
        png_read_info_def getRawData_transformations_def png_read_image_def
        png_read_mem_src_def png_warning_callback_def quiet_def
        sample_codec_def sample_info_def sample_adapter_def Image_base_def
        PNG_COLOR_TYPE_GRAY_def PNG_COLOR_TYPE_PALETTE_def PNG_COLOR_MASK_COLOR_def
        PNG_COLOR_MASK_PALETTE_def r4 u2)
qed

lemma store_rows_first_overrun:
  assumes "0 < h" and "0 < k" and "length raw < f 0 + length r"
  shows "store_rows raw (map f [0 ..< h]) (replicate k r) = Inl BufferOverrun"
proof -
  obtain h' where h: "h = Suc h'" using assms(1) by (cases h) auto
  obtain k' where k: "k = Suc k'" using assms(2) by (cases k) auto
  have "[0 ..< h] = 0 # [Suc 0 ..< h]"
    using assms(1) by (simp add: upt_conv_Cons)
  then show ?thesis
    using assms(3) by (simp add: k)
qed

lemma wide_parses: "PNG wide_codec sample_data 12 ''wide'' quiet [] = (Inr wide_image, [])"
  by (simp add: PNG_def Let_def png_read_info_def png_create_read_struct_def
        png_set_read_fn_def png_read_mem_src_def wide_image_def
        setColorDepth_def setBitDepth_def setDimensions_def setResolution_def
        setHasAlphaChannel_def wide_codec_def wide_info_def Image_base_def
        PNG_COLOR_MASK_PALETTE_def PNG_COLOR_MASK_ALPHA_def PNG_RESOLUTION_METER_def)

lemma wide_store:
  "store_rows (replicate 0 (0 :: uint8_t))
     (map (\<lambda>row. unat ((of_nat row :: uint32_t) * 65536)) [0 ..< 65536])
     (replicate 65536 (replicate 65536 0)) = Inl BufferOverrun"
  by (rule store_rows_first_overrun) simp_all

text \<open>
  C5, at an input where it fails. The image of 65536 by 65536 8-bit pixels is
  constructed successfully; its row stride times its height is \<open>2 ^ 32\<close>, but the
  product the source computes in 32 bits is 0, so the output array is empty and the
  first decoded row is stored outside it.
\<close>

theorem getRawData_wide_overrun:
  "PNG wide_codec sample_data 12 ''wide'' quiet [] = (Inr wide_image, [])
   \<and> unat (rowbytes (header wide_codec)) * unat (ySize (getDimensions wide_image)) = 4294967296
   \<and> unat ((ucast (rowbytes (header wide_codec)) :: png_uint_32) * ySize (getDimensions wide_image)) = 0
   \<and> getRawData True wide_codec wide_image [] = (Inl BufferOverrun, [])"
proof -
  have a: "unat (rowbytes (header wide_codec)) * unat (ySize (getDimensions wide_image)) = 4294967296"
    by (simp add: wide_codec_def wide_info_def wide_image_def)
  have b: "unat ((ucast (rowbytes (header wide_codec)) :: png_uint_32) * ySize (getDimensions wide_image)) = 0"
    by (simp add: wide_codec_def wide_info_def wide_image_def)
  have rows: "image_rows wide_codec = replicate 65536 (replicate 65536 0)"
    by (simp add: wide_codec_def)
  have info: "png_read_info wide_codec (session wide_image 0 []) []
                = (Inr (session wide_image 8 [], wide_info), [])"
    by (simp add: png_read_info_def wide_codec_def session_def png_read_mem_src_def
          wide_image_def Image_base_def)
  have tr: "getRawData_transformations True wide_codec p wide_info ds
              = (Inr (p, wide_info, 8, 0), ds)" for p ds
    by (simp add: getRawData_transformations_def Let_def wide_info_def
          PNG_COLOR_TYPE_GRAY_def PNG_COLOR_TYPE_PALETTE_def PNG_COLOR_MASK_COLOR_def
          PNG_COLOR_MASK_PALETTE_def)
  have run: "png_run (session wide_image 8 []) (read_image_events wide_codec) []
               = (Inr (session wide_image 12 []), [])"
    by (simp add: wide_codec_def session_def png_read_mem_src_def wide_image_def Image_base_def)
  have img: "png_read_image wide_codec (session wide_image 8 [])
               (map (\<lambda>row. unat ((of_nat row :: uint32_t) * 65536)) [0 ..< 65536])
               [] [] = (Inl BufferOverrun, [])"
    unfolding png_read_image_def rows run using wide_store
    by (simp del: upt_rec_numeral)
  have ok: "create_read_struct_ok wide_codec" "create_info_struct_ok wide_codec"
    by (simp_all add: wide_codec_def)
  have dims: "ySize (getDimensions wide_image) = 65536" "rowbytes wide_info = 65536"
    by (simp_all add: wide_image_def wide_info_def)
  have c: "getRawData True wide_codec wide_image [] = (Inl BufferOverrun, [])"
    unfolding getRawData_def
    by (simp add: png_create_read_struct_def ok info [unfolded session_def] tr dims
          img [unfolded session_def] Let_def png_set_read_fn_def
          del: upt_rec_numeral)
  show ?thesis using wide_parses a b c by simp
qed

section \<open>Codec errors and warnings\<close>

lemma png_run_append:
  "png_run p (xs @ ys) ds =
     (case png_run p xs ds of
        (Inl e, d1) \<Rightarrow> (Inl e, d1)
      | (Inr p1, d1) \<Rightarrow> png_run p1 ys d1)"
  by (induction p xs ds rule: png_run.induct) (auto split: sum.splits prod.splits)

lemma png_run_error:
  assumes "error_ptr p = Some this"
  shows "png_run p (PngError m # post) ds =
           (Inl (case getStatusCallback this (Status Error m (getIdentifier this)) of
                   None \<Rightarrow> StrategyError m | Some e \<Rightarrow> e),
            ds @ [Status Error m (getIdentifier this)])"
  using assms by (simp add: png_error_callback_def split: option.splits)

lemma png_run_reaches_error:
  assumes "png_run p pre ds = (Inr p1, ds1)" and "error_ptr p = Some this"
  shows "png_run p (pre @ PngError m # post) ds =
           (Inl (case getStatusCallback this (Status Error m (getIdentifier this)) of
                   None \<Rightarrow> StrategyError m | Some e \<Rightarrow> e),
            ds1 @ [Status Error m (getIdentifier this)])"
proof -
  have "error_ptr p1 = Some this"
    using png_run_frame [OF assms(1)] assms(2) by simp
  then show ?thesis
    by (simp only: png_run_append assms(1) prod.case sum.case png_run_error)
qed

lemma png_run_forwards:
  assumes "png_run p es ds = (Inr p1, ds1)" and "error_ptr p = Some this"
  shows "ds1 = ds @ map (\<lambda>m. Status Error m (getIdentifier this)) (warnings_of es)"
  using assms
proof (induction p es ds rule: png_run.induct)
  case (1 p ds)
  then show ?case by simp
next
  case (2 p n es ds)
  then show ?case
    by (auto split: sum.splits dest: png_read_mem_src_frame)
next
  case (3 p m es ds)
  then show ?case
    by (auto simp: png_warning_callback_def split: sum.splits prod.splits option.splits)
next
  case (4 p m es ds)
  then show ?case by (simp split: prod.splits)
qed

lemma png_run_without_warnings:
  assumes "error_ptr p = Some this" and "\<forall>s. getStatusCallback this s = None"
  shows "fst (png_run p es ds) = fst (png_run p (filter (\<lambda>e. \<not> is_warning e) es) ds')"
  using assms(1)
proof (induction es arbitrary: p ds ds')
  case Nil
  then show ?case by simp
next
  case (Cons a es)
  show ?case
  proof (cases a)
    case (PngRead n)
    show ?thesis
    proof (cases "png_read_mem_src p n")
      case (Inl e)
      then show ?thesis by (simp add: PngRead)
    next
      case (Inr r)
      obtain bytes p' where r: "r = (bytes, p')" by (cases r)
      have "error_ptr p' = Some this"
        using png_read_mem_src_frame [of p n bytes p'] Inr r Cons.prems by simp
      from Cons.IH [OF this] show ?thesis
        by (simp add: PngRead Inr r)
    qed
  next
    case (PngWarning m)
    have "png_warning_callback p m ds = (Inr (), ds @ [Status Error m (getIdentifier this)])"
      using Cons.prems assms(2) by (simp add: png_warning_callback_def)
    then show ?thesis
      using Cons.IH [OF Cons.prems] by (simp add: PngWarning)
  next
    case (PngError m)
    then show ?thesis
      using Cons.prems assms(2) by (simp add: png_error_callback_def)
  qed
qed

lemma without_warnings_simps:
  "create_read_struct_ok (without_warnings c) = create_read_struct_ok c"
  "create_info_struct_ok (without_warnings c) = create_info_struct_ok c"
  "header (without_warnings c) = header c"
  "updated_header (without_warnings c) = updated_header c"
  "image_rows (without_warnings c) = image_rows c"
  "read_info_events (without_warnings c) = filter (\<lambda>e. \<not> is_warning e) (read_info_events c)"
  "read_update_info_events (without_warnings c)
     = filter (\<lambda>e. \<not> is_warning e) (read_update_info_events c)"
  "read_image_events (without_warnings c) = filter (\<lambda>e. \<not> is_warning e) (read_image_events c)"
  by (simp_all add: without_warnings_def)

lemma fst_map_result:
  "fst (case X of (Inl e, d) \<Rightarrow> (Inl e, d) | (Inr x, d) \<Rightarrow> (Inr (g x), d))
     = (case fst X of Inl e \<Rightarrow> Inl e | Inr x \<Rightarrow> Inr (g x))"
  by (cases X; cases "fst X") auto

lemma fst_case_cong2:
  assumes "fst X = fst X'"
      and "\<And>a b d d'. fst X = Inr (a, b) \<Longrightarrow> fst (F a b d) = fst (F' a b d')"
  shows "fst (case X of (Inl e, d) \<Rightarrow> (Inl e, d) | (Inr (a, b), d) \<Rightarrow> F a b d)
       = fst (case X' of (Inl e, d) \<Rightarrow> (Inl e, d) | (Inr (a, b), d) \<Rightarrow> F' a b d)"
  using assms by (cases X; cases X'; cases "fst X") auto

lemma fst_case_cong4:
  assumes "fst X = fst X'"
      and "\<And>a b c e d d'. fst X = Inr (a, b, c, e) \<Longrightarrow> fst (F a b c e d) = fst (F' a b c e d')"
  shows "fst (case X of (Inl e, d) \<Rightarrow> (Inl e, d) | (Inr (a, b, c, e), d) \<Rightarrow> F a b c e d)
       = fst (case X' of (Inl e, d) \<Rightarrow> (Inl e, d) | (Inr (a, b, c, e), d) \<Rightarrow> F' a b c e d)"
  using assms by (cases X; cases X'; cases "fst X") auto

lemma png_read_info_without_warnings:
  assumes "error_ptr p = Some this" and "\<forall>s. getStatusCallback this s = None"
  shows "fst (png_read_info c p ds) = fst (png_read_info (without_warnings c) p ds')"
  unfolding png_read_info_def fst_map_result without_warnings_simps
  using png_run_without_warnings [OF assms, of "read_info_events c" ds ds'] by simp

lemma png_read_update_info_without_warnings:
  assumes "error_ptr p = Some this" and "\<forall>s. getStatusCallback this s = None"
  shows "fst (png_read_update_info c p ds) = fst (png_read_update_info (without_warnings c) p ds')"
proof -
  have "error_ptr (p \<lparr> calls := calls p @ [ReadUpdateInfo] \<rparr>) = Some this"
    using assms(1) by simp
  from png_run_without_warnings [OF this assms(2), of "read_update_info_events c" ds ds']
  show ?thesis
    unfolding png_read_update_info_def fst_map_result without_warnings_simps by simp
qed

lemma png_read_image_without_warnings:
  assumes "error_ptr p = Some this" and "\<forall>s. getStatusCallback this s = None"
  shows "fst (png_read_image c p rp raw ds) = fst (png_read_image (without_warnings c) p rp raw ds')"
proof -
  have "fst (png_read_image c p rp raw d) =
          (case fst (png_run p (read_image_events c) d) of
             Inl e \<Rightarrow> Inl e
           | Inr p1 \<Rightarrow> (case store_rows raw rp (image_rows c) of
                          Inl e \<Rightarrow> Inl e | Inr r \<Rightarrow> Inr (p1, r)))" for c d
    by (cases "png_run p (read_image_events c) d")
      (auto simp: png_read_image_def split: sum.splits)
  then show ?thesis
    using png_run_without_warnings [OF assms, of "read_image_events c" ds ds']
    by (simp add: without_warnings_simps cong: sum.case_cong)
qed

lemma transformations_without_warnings:
  assumes "error_ptr p = Some this" and "\<forall>s. getStatusCallback this s = None"
  shows "fst (getRawData_transformations le c p info ds)
       = fst (getRawData_transformations le (without_warnings c) p info ds')"
proof -
  have u: "fst (png_read_update_info c q ds) = fst (png_read_update_info (without_warnings c) q ds')"
    if "error_ptr q = Some this" for q
    using png_read_update_info_without_warnings [OF that assms(2)] .
  have m: "fst (case X of (Inl e, d) \<Rightarrow> (Inl e, d)
                | (Inr (q, i), d) \<Rightarrow> (Inr (q, i, bit_depth i, color_type i), d))
         = (case fst X of Inl e \<Rightarrow> Inl e | Inr (q, i) \<Rightarrow> Inr (q, i, bit_depth i, color_type i))"
    for X :: "(error + png_struct \<times> png_info) \<times> status list"
    by (cases X; cases "fst X") auto
  show ?thesis
    unfolding getRawData_transformations_def Let_def
    using assms(1)
    by (simp add: m u png_set_swap_def png_set_expand_gray_1_2_4_to_8_def
          png_set_palette_to_rgb_def png_set_tRNS_to_alpha_def split: if_splits)
qed

lemma PNG_without_warnings:
  assumes "\<forall>s. cb s = None"
  shows "fst (PNG c d n ident cb ds) = fst (PNG (without_warnings c) d n ident cb ds)"
proof -
  let ?p = "\<lparr> error_ptr = Some (Image_base d n ident cb),
              io_ptr = Some \<lparr> data = d, size' = n, offset = 0 \<rparr>, calls = [] \<rparr>"
  have q: "\<forall>s. getStatusCallback (Image_base d n ident cb) s = None"
    using assms by (simp add: Image_base_def)
  have e: "error_ptr ?p = Some (Image_base d n ident cb)" by simp
  note r = png_read_info_without_warnings [OF e q, of c ds ds]
  have m: "fst (case X of (Inl e, d) \<Rightarrow> (Inl e, d) | (Inr (q, i), d) \<Rightarrow> (Inr (g i), d))
         = (case fst X of Inl e \<Rightarrow> Inl e | Inr (q, i) \<Rightarrow> Inr (g i))"
    for X :: "(error + png_struct \<times> png_info) \<times> status list" and g :: "png_info \<Rightarrow> Image"
    by (cases X; cases "fst X") auto
  show ?thesis
    unfolding PNG_def Let_def png_create_read_struct_def png_set_read_fn_def
    using r
    by (simp add: m without_warnings_simps Image_base_def)
qed

lemma png_read_info_fst_frame:
  "fst (png_read_info c p ds) = Inr (p1, info) \<Longrightarrow> error_ptr p1 = error_ptr p"
  using png_read_info_frame [of c p ds p1 info "snd (png_read_info c p ds)"]
  by (cases "png_read_info c p ds") simp

lemma transformations_fst_frame:
  "fst (getRawData_transformations le c p info ds) = Inr (p', info', bd, ct) \<Longrightarrow>
     error_ptr p' = error_ptr p"
  using transformations_frame
          [of le c p info ds p' info' bd ct "snd (getRawData_transformations le c p info ds)"]
  by (cases "getRawData_transformations le c p info ds") simp

lemma getRawData_without_warnings:
  assumes "\<forall>s. getStatusCallback this s = None"
  shows "fst (getRawData le c this ds) = fst (getRawData le (without_warnings c) this ds)"
proof (cases "create_read_struct_ok c \<and> create_info_struct_ok c")
  case False
  then show ?thesis
    by (auto simp: getRawData_def Let_def png_create_read_struct_def without_warnings_simps)
next
  case True
  have m: "fst (case X of (Inl e, d) \<Rightarrow> (Inl e, d) | (Inr (q, raw), d) \<Rightarrow> (Inr raw, d))
         = (case fst X of Inl e \<Rightarrow> Inl e | Inr (q, raw) \<Rightarrow> Inr raw)"
    for X :: "(error + png_struct \<times> uint8_t list) \<times> status list"
    by (cases X; cases "fst X") auto
  show ?thesis
    unfolding getRawData_def Let_def png_create_read_struct_def png_set_read_fn_def
    apply (simp add: True without_warnings_simps)
    apply (rule fst_case_cong2)
    subgoal by (rule png_read_info_without_warnings [OF _ assms]) simp
    subgoal for p1 info d1 d1'
      apply (drule png_read_info_fst_frame)
      apply (rule fst_case_cong4)
      subgoal by (rule transformations_without_warnings [OF _ assms]) simp
      subgoal for p2 info2 bd ct d2 d2'
        apply (drule transformations_fst_frame)
        apply (simp only: m)
        apply (subst png_read_image_without_warnings [OF _ assms, where c = c and ds = d2 and ds' = d2'])
         apply simp
        apply (rule refl)
        done
      done
    done
qed

lemma PNG_Inr_forwards:
  assumes "PNG c d n ident cb ds = (Inr img, ds1)"
  shows "ds1 = ds @ map (\<lambda>w. Status Error w ident) (warnings_of (read_info_events c))"
proof -
  let ?p = "\<lparr> error_ptr = Some (Image_base d n ident cb),
              io_ptr = Some \<lparr> data = d, size' = n, offset = 0 \<rparr>, calls = [] \<rparr>"
  from assms obtain p1 where "png_run ?p (read_info_events c) ds = (Inr p1, ds1)"
    by (auto simp: PNG_def Let_def png_read_info_def png_create_read_struct_def
          png_set_read_fn_def Image_base_def
        split: option.splits if_splits prod.splits sum.splits)
  from png_run_forwards [OF this, of "Image_base d n ident cb"] show ?thesis
    by (simp add: Image_base_def)
qed

lemma PNG_reaches_error:
  assumes "create_read_struct_ok c" and "create_info_struct_ok c"
      and "read_info_events c = pre @ PngError m # post"
      and "png_run \<lparr> error_ptr = Some (Image_base d n ident cb),
                      io_ptr = Some \<lparr> data = d, size' = n, offset = 0 \<rparr>, calls = [] \<rparr>
             pre ds = (Inr p1, ds1)"
  shows "PNG c d n ident cb ds =
           (Inl (case cb (Status Error m ident) of None \<Rightarrow> StrategyError m | Some e \<Rightarrow> e),
            ds1 @ [Status Error m ident])"
  using png_run_reaches_error [OF assms(4), of "Image_base d n ident cb" m post] assms(1-3)
  by (simp add: PNG_def Let_def png_read_info_def png_create_read_struct_def
        png_set_read_fn_def Image_base_def)

lemma getRawData_reaches_error:
  assumes "create_read_struct_ok c" and "create_info_struct_ok c"
      and "png_read_info c \<lparr> error_ptr = Some this,
                      io_ptr = Some \<lparr> data = getDataPointer this, size' = getDataSize this,
                                      offset = 0 \<rparr>, calls = [] \<rparr> ds
             = (Inr (p1, info), ds1)"
      and "getRawData_transformations le c p1 info ds1 = (Inr (p2, info2, bd, ct), ds2)"
      and "read_image_events c = pre @ PngError m # post"
      and "png_run p2 pre ds2 = (Inr p3, ds3)"
  shows "getRawData le c this ds =
           (Inl (case getStatusCallback this (Status Error m (getIdentifier this)) of
                   None \<Rightarrow> StrategyError m | Some e \<Rightarrow> e),
            ds3 @ [Status Error m (getIdentifier this)])"
proof -
  have "error_ptr p1 = Some this"
    using png_read_info_frame [OF assms(3)] by simp
  then have "error_ptr p2 = Some this"
    using transformations_frame [OF assms(4)] by simp
  from png_run_reaches_error [OF assms(6) this, of m post] show ?thesis
    using assms(1-5)
    by (simp add: getRawData_def Let_def png_create_read_struct_def png_set_read_fn_def
          png_read_image_def)
qed

lemma png_read_mem_src_calls:
  "png_read_mem_src (p \<lparr> calls := cs \<rparr>) n =
     (case png_read_mem_src p n of
        Inl e \<Rightarrow> Inl e
      | Inr (bytes, q) \<Rightarrow> Inr (bytes, q \<lparr> calls := cs \<rparr>))"
  by (simp add: png_read_mem_src_def split: option.splits)

lemma png_run_calls:
  "png_run p es ds = (Inr p', ds1) \<Longrightarrow>
     png_run (p \<lparr> calls := cs \<rparr>) es ds = (Inr (p' \<lparr> calls := cs \<rparr>), ds1)"
proof (induction p es ds rule: png_run.induct)
  case (1 p ds)
  then show ?case by auto
next
  case (2 p n es ds)
  then show ?case
    by (auto simp: png_read_mem_src_calls split: sum.splits)
next
  case (3 p m es ds)
  have "png_warning_callback (p \<lparr> calls := cs \<rparr>) m ds = png_warning_callback p m ds"
    by (simp add: png_warning_callback_def)
  with 3 show ?case
    by (auto split: sum.splits prod.splits)
next
  case (4 p m es ds)
  then show ?case by (simp split: prod.splits)
qed

lemma transformations_unfold:
  "getRawData_transformations le c p info ds =
     (if (color_type info = PNG_COLOR_TYPE_GRAY \<and> bit_depth info < 8)
           \<or> color_type info = PNG_COLOR_TYPE_PALETTE \<or> tRNS info
      then (case png_read_update_info c (p \<lparr> calls := calls p @ requested_calls le info \<rparr>) ds of
              (Inl e, d1) \<Rightarrow> (Inl e, d1)
            | (Inr (q, i), d1) \<Rightarrow> (Inr (q, i, bit_depth i, color_type i), d1))
      else (Inr (p \<lparr> calls := calls p @ requested_calls le info \<rparr>, info,
                 bit_depth info, color_type info), ds))"
  by (simp add: getRawData_transformations_def Let_def requested_calls_def
        png_set_swap_def png_set_expand_gray_1_2_4_to_8_def png_set_palette_to_rgb_def
        png_set_tRNS_to_alpha_def)

lemma getRawData_header_error:
  assumes "create_read_struct_ok c" and "create_info_struct_ok c"
      and "read_info_events c = pre @ PngError m # post"
      and "png_run \<lparr> error_ptr = Some this,
                      io_ptr = Some \<lparr> data = getDataPointer this, size' = getDataSize this,
                                      offset = 0 \<rparr>, calls = [] \<rparr> pre ds
             = (Inr q1, ds1)"
  shows "getRawData le c this ds =
           (Inl (case getStatusCallback this (Status Error m (getIdentifier this)) of
                   None \<Rightarrow> StrategyError m | Some e \<Rightarrow> e),
            ds1 @ [Status Error m (getIdentifier this)])"
  using png_run_reaches_error [OF assms(4), of this m post] assms(1-3)
  by (simp add: getRawData_def Let_def png_read_info_def png_create_read_struct_def
        png_set_read_fn_def)

lemma getRawData_update_error:
  assumes "create_read_struct_ok c" and "create_info_struct_ok c"
      and "png_read_info c \<lparr> error_ptr = Some this,
                      io_ptr = Some \<lparr> data = getDataPointer this, size' = getDataSize this,
                                      offset = 0 \<rparr>, calls = [] \<rparr> ds
             = (Inr (q1, info), ds1)"
      and "(color_type info = PNG_COLOR_TYPE_GRAY \<and> bit_depth info < 8)
             \<or> color_type info = PNG_COLOR_TYPE_PALETTE \<or> tRNS info"
      and "read_update_info_events c = pre @ PngError m # post"
      and "png_run q1 pre ds1 = (Inr q2, ds2)"
  shows "getRawData le c this ds =
           (Inl (case getStatusCallback this (Status Error m (getIdentifier this)) of
                   None \<Rightarrow> StrategyError m | Some e \<Rightarrow> e),
            ds2 @ [Status Error m (getIdentifier this)])"
proof -
  let ?cs = "calls q1 @ requested_calls le info @ [ReadUpdateInfo]"
  have e1: "error_ptr q1 = Some this"
    using png_read_info_frame [OF assms(3)] by simp
  have r: "png_run (q1 \<lparr> calls := ?cs \<rparr>) pre ds1 = (Inr (q2 \<lparr> calls := ?cs \<rparr>), ds2)"
    by (rule png_run_calls [OF assms(6)])
  have e2: "error_ptr (q1 \<lparr> calls := ?cs \<rparr>) = Some this"
    using e1 by simp
  have u: "png_read_update_info c (q1 \<lparr> calls := calls q1 @ requested_calls le info \<rparr>) ds1 =
             (Inl (case getStatusCallback this (Status Error m (getIdentifier this)) of
                     None \<Rightarrow> StrategyError m | Some e \<Rightarrow> e),
              ds2 @ [Status Error m (getIdentifier this)])"
    using png_run_reaches_error [OF r e2, of m post]
    by (simp add: png_read_update_info_def assms(5))
  have t: "getRawData_transformations le c q1 info ds1 =
             (Inl (case getStatusCallback this (Status Error m (getIdentifier this)) of
                     None \<Rightarrow> StrategyError m | Some e \<Rightarrow> e),
              ds2 @ [Status Error m (getIdentifier this)])"
    unfolding transformations_unfold using assms(4) by (simp add: u)
  show ?thesis
    using assms(1-3)
    by (simp add: getRawData_def Let_def png_create_read_struct_def png_set_read_fn_def t)
qed

text \<open>
  C6, as amended. When the codec reports an error while the constructor reads the
  header, or while \<open>getRawData\<close> reads the header again, commits the
  transformations, or reads the pixel data, the callback is invoked with severity
  \<open>Error\<close>, the codec's message and the adapter's identifier, after the statuses
  delivered so far, and the operation fails: with the callback's own exception when
  the callback throws, and with \<open>StrategyError\<close> carrying the codec's message when
  it returns. A codec warning is delivered to the callback in the same form; the run
  goes on when the callback returns and ends with the callback's exception when it
  throws. With a callback that never throws, the outcome of the constructor and of
  \<open>getRawData\<close> is the outcome for the same codec with its warnings left out, and
  a successful constructor has delivered every warning of the header phase, in
  order.
\<close>

theorem codec_error_notifies_then_throws:
  "(create_read_struct_ok c \<and> create_info_struct_ok c
      \<and> read_info_events c = pre @ PngError m # post
      \<and> png_run \<lparr> error_ptr = Some (Image_base d n ident cb),
                    io_ptr = Some \<lparr> data = d, size' = n, offset = 0 \<rparr>, calls = [] \<rparr>
           pre ds = (Inr p1, ds1)
    \<longrightarrow> PNG c d n ident cb ds =
          (Inl (case cb (Status Error m ident) of None \<Rightarrow> StrategyError m | Some e \<Rightarrow> e),
           ds1 @ [Status Error m ident]))
   \<and> (create_read_struct_ok c \<and> create_info_struct_ok c
      \<and> read_info_events c = pre @ PngError m # post
      \<and> png_run \<lparr> error_ptr = Some this,
                    io_ptr = Some \<lparr> data = getDataPointer this, size' = getDataSize this,
                                    offset = 0 \<rparr>, calls = [] \<rparr>
           pre ds = (Inr q1, ds1)
    \<longrightarrow> getRawData le c this ds =
          (Inl (case getStatusCallback this (Status Error m (getIdentifier this)) of
                  None \<Rightarrow> StrategyError m | Some e \<Rightarrow> e),
           ds1 @ [Status Error m (getIdentifier this)]))
   \<and> (create_read_struct_ok c \<and> create_info_struct_ok c
      \<and> png_read_info c \<lparr> error_ptr = Some this,
                    io_ptr = Some \<lparr> data = getDataPointer this, size' = getDataSize this,
                                    offset = 0 \<rparr>, calls = [] \<rparr> ds
           = (Inr (q1, info), ds1)
      \<and> ((color_type info = PNG_COLOR_TYPE_GRAY \<and> bit_depth info < 8)
           \<or> color_type info = PNG_COLOR_TYPE_PALETTE \<or> tRNS info)
      \<and> read_update_info_events c = pre @ PngError m # post
      \<and> png_run q1 pre ds1 = (Inr q2, ds2)
    \<longrightarrow> getRawData le c this ds =
          (Inl (case getStatusCallback this (Status Error m (getIdentifier this)) of
                  None \<Rightarrow> StrategyError m | Some e \<Rightarrow> e),
           ds2 @ [Status Error m (getIdentifier this)]))
   \<and> (create_read_struct_ok c \<and> create_info_struct_ok c
      \<and> png_read_info c \<lparr> error_ptr = Some this,
                    io_ptr = Some \<lparr> data = getDataPointer this, size' = getDataSize this,
                                    offset = 0 \<rparr>, calls = [] \<rparr> ds
           = (Inr (q1, info), ds1)
      \<and> getRawData_transformations le c q1 info ds1 = (Inr (q2, info2, bd, ct), ds2)
      \<and> read_image_events c = pre @ PngError m # post
      \<and> png_run q2 pre ds2 = (Inr q3, ds3)
    \<longrightarrow> getRawData le c this ds =
          (Inl (case getStatusCallback this (Status Error m (getIdentifier this)) of
                  None \<Rightarrow> StrategyError m | Some e \<Rightarrow> e),
           ds3 @ [Status Error m (getIdentifier this)]))
   \<and> (error_ptr p = Some this
    \<longrightarrow> png_run p (PngWarning w # es) ds =
          (case getStatusCallback this (Status Error w (getIdentifier this)) of
             None \<Rightarrow> png_run p es (ds @ [Status Error w (getIdentifier this)])
           | Some e \<Rightarrow> (Inl e, ds @ [Status Error w (getIdentifier this)])))
   \<and> ((\<forall>s. cb s = None)
    \<longrightarrow> fst (PNG c d n ident cb ds) = fst (PNG (without_warnings c) d n ident cb ds))
   \<and> ((\<forall>s. getStatusCallback this s = None)
    \<longrightarrow> fst (getRawData le c this ds) = fst (getRawData le (without_warnings c) this ds))
   \<and> (\<forall>img ds'. PNG c d n ident cb ds = (Inr img, ds')
    \<longrightarrow> ds' = ds @ map (\<lambda>w. Status Error w ident) (warnings_of (read_info_events c)))"
proof (intro conjI impI allI)
  assume "create_read_struct_ok c \<and> create_info_struct_ok c
      \<and> read_info_events c = pre @ PngError m # post
      \<and> png_run \<lparr> error_ptr = Some (Image_base d n ident cb),
                    io_ptr = Some \<lparr> data = d, size' = n, offset = 0 \<rparr>, calls = [] \<rparr>
           pre ds = (Inr p1, ds1)"
  then show "PNG c d n ident cb ds =
          (Inl (case cb (Status Error m ident) of None \<Rightarrow> StrategyError m | Some e \<Rightarrow> e),
           ds1 @ [Status Error m ident])"
    using PNG_reaches_error by blast
next
  assume "create_read_struct_ok c \<and> create_info_struct_ok c
      \<and> read_info_events c = pre @ PngError m # post
      \<and> png_run \<lparr> error_ptr = Some this,
                    io_ptr = Some \<lparr> data = getDataPointer this, size' = getDataSize this,
                                    offset = 0 \<rparr>, calls = [] \<rparr>
           pre ds = (Inr q1, ds1)"
  then show "getRawData le c this ds =
          (Inl (case getStatusCallback this (Status Error m (getIdentifier this)) of
                  None \<Rightarrow> StrategyError m | Some e \<Rightarrow> e),
           ds1 @ [Status Error m (getIdentifier this)])"
    using getRawData_header_error by blast
next
  assume h: "create_read_struct_ok c \<and> create_info_struct_ok c
      \<and> png_read_info c \<lparr> error_ptr = Some this,
                    io_ptr = Some \<lparr> data = getDataPointer this, size' = getDataSize this,
                                    offset = 0 \<rparr>, calls = [] \<rparr> ds
           = (Inr (q1, info), ds1)
      \<and> ((color_type info = PNG_COLOR_TYPE_GRAY \<and> bit_depth info < 8)
           \<or> color_type info = PNG_COLOR_TYPE_PALETTE \<or> tRNS info)
      \<and> read_update_info_events c = pre @ PngError m # post
      \<and> png_run q1 pre ds1 = (Inr q2, ds2)"
  show "getRawData le c this ds =
          (Inl (case getStatusCallback this (Status Error m (getIdentifier this)) of
                  None \<Rightarrow> StrategyError m | Some e \<Rightarrow> e),
           ds2 @ [Status Error m (getIdentifier this)])"
    by (rule getRawData_update_error
          [where ?q1.0 = q1 and info = info and ?ds1.0 = ds1 and pre = pre and post = post
             and ?q2.0 = q2])
       (use h in simp_all)
next
  assume "create_read_struct_ok c \<and> create_info_struct_ok c
      \<and> png_read_info c \<lparr> error_ptr = Some this,
                    io_ptr = Some \<lparr> data = getDataPointer this, size' = getDataSize this,
                                    offset = 0 \<rparr>, calls = [] \<rparr> ds
           = (Inr (q1, info), ds1)
      \<and> getRawData_transformations le c q1 info ds1 = (Inr (q2, info2, bd, ct), ds2)
      \<and> read_image_events c = pre @ PngError m # post
      \<and> png_run q2 pre ds2 = (Inr q3, ds3)"
  then show "getRawData le c this ds =
          (Inl (case getStatusCallback this (Status Error m (getIdentifier this)) of
                  None \<Rightarrow> StrategyError m | Some e \<Rightarrow> e),
           ds3 @ [Status Error m (getIdentifier this)])"
    using getRawData_reaches_error by blast
next
  assume "error_ptr p = Some this"
  then show "png_run p (PngWarning w # es) ds =
          (case getStatusCallback this (Status Error w (getIdentifier this)) of
             None \<Rightarrow> png_run p es (ds @ [Status Error w (getIdentifier this)])
           | Some e \<Rightarrow> (Inl e, ds @ [Status Error w (getIdentifier this)]))"
    by (simp add: png_warning_callback_def split: option.splits)
next
  assume "\<forall>s. cb s = None"
  then show "fst (PNG c d n ident cb ds) = fst (PNG (without_warnings c) d n ident cb ds)"
    by (rule PNG_without_warnings)
next
  assume "\<forall>s. getStatusCallback this s = None"
  then show "fst (getRawData le c this ds) = fst (getRawData le (without_warnings c) this ds)"
    by (rule getRawData_without_warnings)
next
  fix img ds'
  assume "PNG c d n ident cb ds = (Inr img, ds')"
  then show "ds' = ds @ map (\<lambda>w. Status Error w ident) (warnings_of (read_info_events c))"
    by (rule PNG_Inr_forwards)
qed

lemma failing_prefix:
  "png_run \<lparr> error_ptr = Some (Image_base sample_data 12 ''img'' quiet),
             io_ptr = Some \<lparr> data = sample_data, size' = 12, offset = 0 \<rparr>, calls = [] \<rparr>
     [PngRead 8, PngWarning ''gamma''] [] =
   (Inr \<lparr> error_ptr = Some (Image_base sample_data 12 ''img'' quiet),
           io_ptr = Some \<lparr> data = sample_data, size' = 12, offset = 8 \<rparr>, calls = [] \<rparr>,
    [Status Error ''gamma'' ''img''])"
  by (simp add: png_read_mem_src_def png_warning_callback_def Image_base_def quiet_def)

lemma decode_failing_read_info:
  "png_read_info decode_failing_codec (session sample_adapter 0 []) [] =
     (Inr (session sample_adapter 8 [], sample_info), [Status Error ''gamma'' ''img''])"
  by (simp add: png_read_info_def session_def png_read_mem_src_def png_warning_callback_def
        sample_adapter_def Image_base_def quiet_def decode_failing_codec_def sample_codec_def)

lemma sample_transformations:
  "getRawData_transformations True c p sample_info ds = (Inr (p, sample_info, 8, 0), ds)"
  by (simp add: getRawData_transformations_def Let_def sample_info_def
        PNG_COLOR_TYPE_GRAY_def PNG_COLOR_TYPE_PALETTE_def PNG_COLOR_MASK_COLOR_def
        PNG_COLOR_MASK_PALETTE_def)

lemma sample_read_4:
  "png_run (session sample_adapter 8 []) [PngRead 4] ds = (Inr (session sample_adapter 12 []), ds)"
  by (simp add: session_def png_read_mem_src_def sample_adapter_def Image_base_def)

lemma sample_prefix:
  "png_run (session sample_adapter 0 []) [PngRead 8, PngWarning ''gamma''] [] =
     (Inr (session sample_adapter 8 []), [Status Error ''gamma'' ''img''])"
  by (simp add: session_def png_read_mem_src_def png_warning_callback_def
        sample_adapter_def Image_base_def quiet_def)

lemma update_failing_read_info:
  "png_read_info update_failing_codec (session palette_adapter 0 []) [] =
     (Inr (session palette_adapter 8 [], palette_info), [])"
  by (simp add: png_read_info_def update_failing_codec_def palette_codec_def session_def
        png_read_mem_src_def palette_adapter_def Image_base_def)

theorem codec_error_notifies_then_throws_witness:
  "read_info_events failing_codec = [PngRead 8, PngWarning ''gamma''] @ PngError ''bad header'' # []
   \<and> PNG failing_codec sample_data 12 ''img'' quiet [] =
       (Inl (StrategyError ''bad header''),
        [Status Error ''gamma'' ''img'', Status Error ''bad header'' ''img''])
   \<and> getRawData True failing_codec sample_adapter [] =
       (Inl (StrategyError ''bad header''),
        [Status Error ''gamma'' ''img'', Status Error ''bad header'' ''img''])
   \<and> read_update_info_events update_failing_codec = [] @ PngError ''Insufficient memory'' # []
   \<and> color_type palette_info = PNG_COLOR_TYPE_PALETTE
   \<and> getRawData True update_failing_codec palette_adapter [] =
       (Inl (StrategyError ''Insufficient memory''),
        [Status Error ''Insufficient memory'' ''img''])
   \<and> read_image_events decode_failing_codec = [PngRead 4] @ PngError ''IDAT: CRC error'' # []
   \<and> getRawData True decode_failing_codec sample_adapter [] =
       (Inl (StrategyError ''IDAT: CRC error''),
        [Status Error ''gamma'' ''img'', Status Error ''IDAT: CRC error'' ''img''])
   \<and> fst (PNG sample_codec sample_data 12 ''img'' quiet [])
       = fst (PNG (without_warnings sample_codec) sample_data 12 ''img'' quiet [])
   \<and> fst (getRawData True sample_codec sample_adapter [])
       = fst (getRawData True (without_warnings sample_codec) sample_adapter [])"
proof -
  note t = codec_error_notifies_then_throws
  have q: "getStatusCallback sample_adapter = quiet" "getIdentifier sample_adapter = ''img''"
      "getStatusCallback palette_adapter = quiet" "getIdentifier palette_adapter = ''img''"
    by (simp_all add: sample_adapter_def palette_adapter_def Image_base_def)
  have nq: "\<forall>s. quiet s = None" "\<forall>s. getStatusCallback sample_adapter s = None"
    by (simp_all add: q quiet_def)
  have a: "create_read_struct_ok failing_codec \<and> create_info_struct_ok failing_codec
      \<and> read_info_events failing_codec
          = [PngRead 8, PngWarning ''gamma''] @ PngError ''bad header'' # []"
    by (simp add: failing_codec_def sample_codec_def)
  have h1: "create_read_struct_ok failing_codec \<and> create_info_struct_ok failing_codec
      \<and> read_info_events failing_codec
          = [PngRead 8, PngWarning ''gamma''] @ PngError ''bad header'' # []
      \<and> png_run \<lparr> error_ptr = Some (Image_base sample_data 12 ''img'' quiet),
                    io_ptr = Some \<lparr> data = sample_data, size' = 12, offset = 0 \<rparr>, calls = [] \<rparr>
           [PngRead 8, PngWarning ''gamma''] []
          = (Inr \<lparr> error_ptr = Some (Image_base sample_data 12 ''img'' quiet),
                    io_ptr = Some \<lparr> data = sample_data, size' = 12, offset = 8 \<rparr>,
                    calls = [] \<rparr>,
             [Status Error ''gamma'' ''img''])"
    using a failing_prefix by blast
  have b: "PNG failing_codec sample_data 12 ''img'' quiet [] =
          (Inl (case quiet (Status Error ''bad header'' ''img'') of
                  None \<Rightarrow> StrategyError ''bad header'' | Some e \<Rightarrow> e),
           [Status Error ''gamma'' ''img''] @ [Status Error ''bad header'' ''img''])"
    by (rule t [THEN conjunct1, THEN mp, OF h1])
  have h2: "create_read_struct_ok failing_codec \<and> create_info_struct_ok failing_codec
      \<and> read_info_events failing_codec
          = [PngRead 8, PngWarning ''gamma''] @ PngError ''bad header'' # []
      \<and> png_run (session sample_adapter 0 []) [PngRead 8, PngWarning ''gamma''] []
          = (Inr (session sample_adapter 8 []), [Status Error ''gamma'' ''img''])"
    using a sample_prefix by blast
  have b2: "getRawData True failing_codec sample_adapter [] =
          (Inl (case getStatusCallback sample_adapter
                       (Status Error ''bad header'' (getIdentifier sample_adapter)) of
                  None \<Rightarrow> StrategyError ''bad header'' | Some e \<Rightarrow> e),
           [Status Error ''gamma'' ''img'']
             @ [Status Error ''bad header'' (getIdentifier sample_adapter)])"
    by (rule t [THEN conjunct2, THEN conjunct1, THEN mp, OF h2 [unfolded session_def]])
  have u: "create_read_struct_ok update_failing_codec \<and> create_info_struct_ok update_failing_codec
      \<and> read_update_info_events update_failing_codec = [] @ PngError ''Insufficient memory'' # []"
    by (simp add: update_failing_codec_def palette_codec_def)
  have pal: "color_type palette_info = PNG_COLOR_TYPE_PALETTE"
    by (simp add: palette_info_def PNG_COLOR_TYPE_PALETTE_def PNG_COLOR_MASK_COLOR_def
          PNG_COLOR_MASK_PALETTE_def)
  have h3: "create_read_struct_ok update_failing_codec \<and> create_info_struct_ok update_failing_codec
      \<and> png_read_info update_failing_codec (session palette_adapter 0 []) []
          = (Inr (session palette_adapter 8 [], palette_info), [])
      \<and> ((color_type palette_info = PNG_COLOR_TYPE_GRAY \<and> bit_depth palette_info < 8)
           \<or> color_type palette_info = PNG_COLOR_TYPE_PALETTE \<or> tRNS palette_info)
      \<and> read_update_info_events update_failing_codec = [] @ PngError ''Insufficient memory'' # []
      \<and> png_run (session palette_adapter 8 []) [] [] = (Inr (session palette_adapter 8 []), [])"
    using u pal update_failing_read_info by simp
  have b3: "getRawData True update_failing_codec palette_adapter [] =
          (Inl (case getStatusCallback palette_adapter
                       (Status Error ''Insufficient memory'' (getIdentifier palette_adapter)) of
                  None \<Rightarrow> StrategyError ''Insufficient memory'' | Some e \<Rightarrow> e),
           [] @ [Status Error ''Insufficient memory'' (getIdentifier palette_adapter)])"
    by (rule t [THEN conjunct2, THEN conjunct2, THEN conjunct1, THEN mp,
                OF h3 [unfolded session_def]])
  have c: "create_read_struct_ok decode_failing_codec \<and> create_info_struct_ok decode_failing_codec
      \<and> read_image_events decode_failing_codec = [PngRead 4] @ PngError ''IDAT: CRC error'' # []"
    by (simp add: decode_failing_codec_def sample_codec_def)
  have h4: "create_read_struct_ok decode_failing_codec \<and> create_info_struct_ok decode_failing_codec
      \<and> png_read_info decode_failing_codec (session sample_adapter 0 []) []
          = (Inr (session sample_adapter 8 [], sample_info), [Status Error ''gamma'' ''img''])
      \<and> getRawData_transformations True decode_failing_codec (session sample_adapter 8 [])
            sample_info [Status Error ''gamma'' ''img'']
          = (Inr (session sample_adapter 8 [], sample_info, 8, 0), [Status Error ''gamma'' ''img''])
      \<and> read_image_events decode_failing_codec = [PngRead 4] @ PngError ''IDAT: CRC error'' # []
      \<and> png_run (session sample_adapter 8 []) [PngRead 4] [Status Error ''gamma'' ''img'']
          = (Inr (session sample_adapter 12 []), [Status Error ''gamma'' ''img''])"
    using c decode_failing_read_info sample_transformations sample_read_4 by blast
  have b4: "getRawData True decode_failing_codec sample_adapter [] =
          (Inl (case getStatusCallback sample_adapter
                       (Status Error ''IDAT: CRC error'' (getIdentifier sample_adapter)) of
                  None \<Rightarrow> StrategyError ''IDAT: CRC error'' | Some e \<Rightarrow> e),
           [Status Error ''gamma'' ''img'']
             @ [Status Error ''IDAT: CRC error'' (getIdentifier sample_adapter)])"
    by (rule t [THEN conjunct2, THEN conjunct2, THEN conjunct2, THEN conjunct1, THEN mp,
                OF h4 [unfolded session_def]])
  have e: "fst (PNG sample_codec sample_data 12 ''img'' quiet [])
       = fst (PNG (without_warnings sample_codec) sample_data 12 ''img'' quiet [])"
    by (rule t [where cb = quiet and c = sample_codec and d = sample_data and n = 12
                  and ident = "''img''" and ds = "[]",
           THEN conjunct2, THEN conjunct2, THEN conjunct2, THEN conjunct2, THEN conjunct2,
           THEN conjunct1, THEN mp, OF nq(1)])
  have f: "fst (getRawData True sample_codec sample_adapter [])
       = fst (getRawData True (without_warnings sample_codec) sample_adapter [])"
    by (rule t [where this = sample_adapter and c = sample_codec and le = True and ds = "[]",
           THEN conjunct2, THEN conjunct2, THEN conjunct2, THEN conjunct2, THEN conjunct2,
           THEN conjunct2, THEN conjunct1, THEN mp, OF nq(2)])
  show ?thesis
    using a b b2 u pal b3 c b4 e f by (simp add: q quiet_def)
qed

theorem warning_aborts_counterexample:
  "PNG sample_codec sample_data 12 ''img'' strict [] =
     (Inl (StrategyError ''gamma''), [Status Error ''gamma'' ''img''])
   \<and> fst (PNG (without_warnings sample_codec) sample_data 12 ''img'' strict []) =
       Inr (Image_base sample_data 12 ''img'' strict
             \<lparr> getColorDepth := 8, getBitDepth := 8,
               getDimensions := \<lparr> xSize = 2, ySize = 2 \<rparr>,
               getResolution := \<lparr> xRes = 39.37, yRes = 39.37, units = PPCM \<rparr>,
               hasAlphaChannel := False \<rparr>)"
  by (simp add: PNG_def Let_def png_read_info_def png_create_read_struct_def
        png_set_read_fn_def png_read_mem_src_def png_warning_callback_def strict_def
        setColorDepth_def setBitDepth_def setDimensions_def setResolution_def
        setHasAlphaChannel_def sample_codec_def sample_info_def Image_base_def
        without_warnings_def
        PNG_COLOR_MASK_PALETTE_def PNG_COLOR_MASK_ALPHA_def PNG_RESOLUTION_METER_def)

section \<open>Log sheets\<close>

lemma write_all_result:
  assumes "fs (theLogFile sheet) = Some (LogFile ls)"
  shows "write_all sheet texts fs =
           (Inr (sheet \<lparr> entryNumber := entryNumber sheet + of_nat (length texts) \<rparr>),
            fs(theLogFile sheet \<mapsto>
                 LogFile (ls @ map (\<lambda>k. Entry (entryNumber sheet + of_nat k) (texts ! k))
                                 [0 ..< length texts])))"
  using assms
proof (induction texts arbitrary: sheet fs ls)
  case Nil
  then show ?case by (simp add: map_upd_triv)
next
  case (Cons t texts)
  let ?s = "sheet \<lparr> entryNumber := entryNumber sheet + 1 \<rparr>"
  let ?fs = "fs(theLogFile sheet \<mapsto> LogFile (ls @ [Entry (entryNumber sheet) t]))"
  have w: "write' sheet t True fs = (Inr ?s, ?fs)"
    using Cons.prems by (simp add: write'_def)
  have f: "?fs (theLogFile ?s) = Some (LogFile (ls @ [Entry (entryNumber sheet) t]))"
    by simp
  have step: "write_all sheet (t # texts) fs = write_all ?s texts ?fs"
    by (simp add: w)
  have sheet_eq:
    "?s \<lparr> entryNumber := entryNumber ?s + of_nat (length texts) \<rparr>
       = sheet \<lparr> entryNumber := entryNumber sheet + of_nat (length (t # texts)) \<rparr>"
    by (simp add: ac_simps)
  have list_eq:
    "(ls @ [Entry (entryNumber sheet) t])
       @ map (\<lambda>k. Entry (entryNumber ?s + of_nat k) (texts ! k)) [0 ..< length texts]
     = ls @ map (\<lambda>k. Entry (entryNumber sheet + of_nat k) ((t # texts) ! k))
              [0 ..< length (t # texts)]"
    by (simp add: map_upt_Suc ac_simps del: upt_Suc)
  have fs_eq: "?fs(theLogFile ?s \<mapsto> v) = fs(theLogFile sheet \<mapsto> v)" for v
    by simp
  show ?case
    unfolding step
    by (simp only: Cons.IH [where fs = "?fs" and sheet = "?s", OF f] sheet_eq list_eq fs_eq)
qed

lemma new_LogSheet_fresh:
  assumes "new_LogSheet name description parentDir True fs = (Inr sheet, fs1)"
  shows "entryNumber sheet = 0" and "currentEntry sheet = []"
    and "theLogFile sheet = canonicalName parentDir name"
    and "fs1 (theLogFile sheet) = Some (LogFile [Description description])"
  using assms by (auto simp: new_LogSheet_def Let_def split: if_splits)

lemma fresh_created:
  "new_LogSheet ''run'' ''nightly'' ''logs'' True Map.empty = (Inr fresh_sheet, fresh_fs)"
  by (simp add: new_LogSheet_def Let_def canonicalName_def fresh_sheet_def fresh_fs_def)

text \<open>
  C8, as amended. A call of \<open>write\<close> that meets no file system error appends one
  entry, prefixed with the current entry number, and adds one to the entry number,
  a 32-bit unsigned counter; the staged text is unchanged. After \<open>N\<close> such calls on
  a freshly created sheet the file holds the description and \<open>N\<close> entries, the
  \<open>k\<close>-th (from 0) prefixed with \<open>k\<close> modulo \<open>2 ^ 32\<close>, and the counter is
  \<open>N\<close> modulo \<open>2 ^ 32\<close>: it equals \<open>N\<close> whenever \<open>N < 2 ^ 32\<close>.
\<close>

theorem write_numbers_entries:
  assumes "new_LogSheet name description parentDir True fs = (Inr sheet, fs1)"
  shows "(\<forall>(s :: LogSheet) ls t fs0. fs0 (theLogFile s) = Some (LogFile ls) \<longrightarrow>
            write' s t True fs0 =
              (Inr (s \<lparr> entryNumber := entryNumber s + 1 \<rparr>),
               fs0(theLogFile s \<mapsto> LogFile (ls @ [Entry (entryNumber s) t]))))
       \<and> (\<exists>sheet'.
            write_all sheet texts fs1 =
              (Inr sheet',
               fs1(theLogFile sheet \<mapsto>
                     LogFile (Description description
                              # map (\<lambda>k. Entry (of_nat k) (texts ! k)) [0 ..< length texts])))
            \<and> currentEntry sheet' = currentEntry sheet
            \<and> entryNumber sheet' = of_nat (length texts)
            \<and> (length texts < 2 ^ 32 \<longrightarrow> unat (entryNumber sheet') = length texts))"
proof (intro conjI allI impI)
  fix s :: LogSheet and ls t fs0
  assume "fs0 (theLogFile s) = Some (LogFile ls)"
  then show "write' s t True fs0 =
              (Inr (s \<lparr> entryNumber := entryNumber s + 1 \<rparr>),
               fs0(theLogFile s \<mapsto> LogFile (ls @ [Entry (entryNumber s) t])))"
    by (simp add: write'_def)
next
  note fr = new_LogSheet_fresh [OF assms]
  let ?s = "sheet \<lparr> entryNumber := of_nat (length texts) \<rparr>"
  have r: "write_all sheet texts fs1 =
              (Inr ?s,
               fs1(theLogFile sheet \<mapsto>
                     LogFile (Description description
                              # map (\<lambda>k. Entry (of_nat k) (texts ! k)) [0 ..< length texts])))"
    using write_all_result [where fs = fs1 and sheet = sheet and texts = texts, OF fr(4)]
    by (simp add: fr(1))
  have u: "length texts < 2 ^ 32 \<longrightarrow> unat (entryNumber ?s) = length texts"
    by (simp add: unat_of_nat)
  show "\<exists>sheet'.
            write_all sheet texts fs1 =
              (Inr sheet',
               fs1(theLogFile sheet \<mapsto>
                     LogFile (Description description
                              # map (\<lambda>k. Entry (of_nat k) (texts ! k)) [0 ..< length texts])))
            \<and> currentEntry sheet' = currentEntry sheet
            \<and> entryNumber sheet' = of_nat (length texts)
            \<and> (length texts < 2 ^ 32 \<longrightarrow> unat (entryNumber sheet') = length texts)"
    using r u by (intro exI [of _ ?s]) simp
qed

theorem write_numbers_entries_witness:
  "new_LogSheet ''run'' ''nightly'' ''logs'' True Map.empty = (Inr fresh_sheet, fresh_fs)
   \<and> write_all fresh_sheet [''a'', ''b''] fresh_fs =
       (Inr (fresh_sheet \<lparr> entryNumber := 2 \<rparr>),
        fresh_fs(''logs/run'' \<mapsto>
          LogFile [Description ''nightly'', Entry 0 ''a'', Entry 1 ''b'']))"
proof -
  from write_numbers_entries [OF fresh_created, of "[''a'', ''b'']"]
  obtain sheet' where
    a: "write_all fresh_sheet [''a'', ''b''] fresh_fs =
         (Inr sheet',
          fresh_fs(theLogFile fresh_sheet \<mapsto>
            LogFile (Description ''nightly''
                     # map (\<lambda>k. Entry (of_nat k) ([''a'', ''b''] ! k)) [0 ..< length [''a'', ''b'']])))"
    by blast
  have b: "write_all fresh_sheet [''a'', ''b''] fresh_fs =
       (Inr (fresh_sheet \<lparr> entryNumber := 2 \<rparr>),
        fresh_fs(''logs/run'' \<mapsto>
          LogFile [Description ''nightly'', Entry 0 ''a'', Entry 1 ''b'']))"
    by (simp add: write'_def fresh_sheet_def fresh_fs_def)
  show ?thesis using fresh_created a b by simp
qed

theorem entry_counter_wraps_counterexample:
  "new_LogSheet ''run'' ''nightly'' ''logs'' True Map.empty = (Inr fresh_sheet, fresh_fs)
   \<and> length (replicate 4294967296 ''x'') = 4294967296
   \<and> fst (write_all fresh_sheet (replicate 4294967296 ''x'') fresh_fs) = Inr fresh_sheet
   \<and> unat (entryNumber fresh_sheet) = 0"
proof -
  have f: "fresh_fs (theLogFile fresh_sheet) = Some (LogFile [Description ''nightly''])"
    by (simp add: fresh_fs_def fresh_sheet_def)
  have "fst (write_all fresh_sheet (replicate 4294967296 ''x'') fresh_fs)
          = Inr (fresh_sheet \<lparr> entryNumber := entryNumber fresh_sheet + of_nat 4294967296 \<rparr>)"
    unfolding write_all_result [where fs = fresh_fs and sheet = fresh_sheet, OF f] by simp
  moreover have "entryNumber fresh_sheet + of_nat 4294967296 = entryNumber fresh_sheet"
    by simp
  ultimately show ?thesis
    using fresh_created by (simp add: fresh_sheet_def)
qed

text \<open>
  C9. Creating a log sheet under a name that is taken in the target directory
  fails with \<open>ObjectExists\<close>, whatever else holds, and opening a log cabinet whose
  directory is not there fails with \<open>ObjectDoesNotExist\<close>; in both cases the file
  system is left as it was.
\<close>

theorem existing_names_refused:
  "(fs (canonicalName parentDir name) \<noteq> None \<longrightarrow>
      new_LogSheet name description parentDir io_ok fs = (Inl ObjectExists, fs))
   \<and> (fs (canonicalName parentDir name) \<noteq> Some Directory \<longrightarrow>
      open_LogCabinet name parentDir fs = (Inl ObjectDoesNotExist, fs))"
  by (auto simp: new_LogSheet_def open_LogCabinet_def Let_def
      split: option.splits fs_node.splits)

theorem existing_names_refused_witness:
  "fresh_fs (canonicalName ''logs'' ''run'') \<noteq> None
   \<and> new_LogSheet ''run'' ''again'' ''logs'' True fresh_fs = (Inl ObjectExists, fresh_fs)
   \<and> fresh_fs (canonicalName ''logs'' ''cabinet'') \<noteq> Some Directory
   \<and> open_LogCabinet ''cabinet'' ''logs'' fresh_fs = (Inl ObjectDoesNotExist, fresh_fs)"
proof -
  have a: "fresh_fs (canonicalName ''logs'' ''run'') \<noteq> None"
    by (simp add: fresh_fs_def canonicalName_def)
  have b: "fresh_fs (canonicalName ''logs'' ''cabinet'') \<noteq> Some Directory"
    by (simp add: fresh_fs_def canonicalName_def)
  from existing_names_refused [of fresh_fs "''logs''" "''run''" "''again''" True] a
  have c: "new_LogSheet ''run'' ''again'' ''logs'' True fresh_fs = (Inl ObjectExists, fresh_fs)"
    by blast
  from existing_names_refused [of fresh_fs "''logs''" "''cabinet''"] b
  have d: "open_LogCabinet ''cabinet'' ''logs'' fresh_fs = (Inl ObjectDoesNotExist, fresh_fs)"
    by blast
  show ?thesis using a b c d by blast
qed

end
